theory Spec2Isabelle
  imports Complex_Main "HOL-Library.AList"
begin

section \<open>JavaScript values, objects and errors\<close>

text \<open>
  The repository is JavaScript. A JavaScript number is a double: a finite value, one of
  the two infinities, or NaN. The finite values are modelled as reals (every finite
  double is a real number, and the only operation the code applies to numbers is the
  comparison \<^verbatim>\<open>>\<close>).
\<close>

datatype jsnum = NaN | NegInf | Fin real | PosInf

text \<open>The JavaScript comparison \<^verbatim>\<open>a > b\<close> on numbers: false as soon as one side is NaN.\<close>

fun js_gt :: "jsnum \<Rightarrow> jsnum \<Rightarrow> bool" where
  "js_gt NaN _ = False"
| "js_gt _ NaN = False"
| "js_gt PosInf PosInf = False"
| "js_gt PosInf _ = True"
| "js_gt _ PosInf = False"
| "js_gt NegInf _ = False"
| "js_gt (Fin a) NegInf = True"
| "js_gt (Fin a) (Fin b) = (b < a)"

text \<open>The scalar values a request or an update carries.\<close>

datatype jsval = JUndefined | JNull | JBool bool | JNum jsnum | JStr string

text \<open>
  \<^verbatim>\<open>Number(v)\<close>. The conversion of a string to a number is a built-in of the
  language (it trims white space, reads decimal, hexadecimal and exponent forms, and
  gives NaN for anything else); it is the parameter \<open>str2num\<close>.
\<close>

fun Number :: "(string \<Rightarrow> jsnum) \<Rightarrow> jsval \<Rightarrow> jsnum" where
  "Number str2num JUndefined = NaN"
| "Number str2num JNull = Fin 0"
| "Number str2num (JBool b) = (if b then Fin 1 else Fin 0)"
| "Number str2num (JNum n) = n"
| "Number str2num (JStr s) = str2num s"

text \<open>
  A plain object is the list of its own enumerable properties in enumeration order
  (the order of \<^verbatim>\<open>Object.keys\<close> and \<^verbatim>\<open>Object.values\<close>). A well-formed object
  has distinct keys. The members it inherits from \<^verbatim>\<open>Object.prototype\<close> are listed
  below, with the name-map read of \<^verbatim>\<open>sqlForPartialUpdate\<close>; none of the keys that
  \<^verbatim>\<open>findAll\<close> and the route test or read is among them, so for those keys \<^verbatim>\<open>in\<close>
  and the property read see own properties only.
\<close>

type_synonym jsobj = "(string \<times> jsval) list"

definition Object_keys :: "jsobj \<Rightarrow> string list" where
  "Object_keys obj = map fst obj"

definition Object_values :: "jsobj \<Rightarrow> jsval list" where
  "Object_values obj = map snd obj"

text \<open>\<^verbatim>\<open>k in obj\<close> and \<^verbatim>\<open>obj[k]\<close> (undefined when the property is absent).\<close>

definition has_key :: "string \<Rightarrow> jsobj \<Rightarrow> bool" where
  "has_key k obj = (map_of obj k \<noteq> None)"

definition get_prop :: "jsobj \<Rightarrow> string \<Rightarrow> jsval" where
  "get_prop obj k = (case map_of obj k of Some v \<Rightarrow> v | None \<Rightarrow> JUndefined)"

text \<open>
  Modelled from the spec: the error classes of \<^verbatim>\<open>expressError.js\<close>, which is not among
  the source files. \<open>BadRequestError\<close> is the client-input error; it carries the
  argument of its constructor (none, a string, or an array of strings). \<open>DbError\<close>
  stands for whatever the query executor rejects with.
\<close>

datatype message = NoMessage | Msg string | Msgs "string list"

datatype 'e error = BadRequestError message | DbError 'e

section \<open>String helpers of the language\<close>

text \<open>\<^verbatim>\<open>Array.prototype.join\<close>.\<close>

fun join :: "string \<Rightarrow> string list \<Rightarrow> string" where
  "join sep [] = []"
| "join sep [x] = x"
| "join sep (x # y # ys) = x @ sep @ join sep (y # ys)"

text \<open>
  The decimal text of a non-negative integer, as a template literal renders
  \<^verbatim>\<open>${idx + 1}\<close> and \<^verbatim>\<open>${values.length + 1}\<close> (array lengths stay far below the
  magnitude at which JavaScript switches to exponent notation).
\<close>

definition digit_char :: "nat \<Rightarrow> char" where
  "digit_char d = char_of (48 + d)"

fun dec :: "nat \<Rightarrow> string" where
  "dec n = (if n < 10 then [digit_char n] else dec (n div 10) @ [digit_char (n mod 10)])"

declare dec.simps [simp del]

text \<open>
  \<^verbatim>\<open>a || b\<close> where \<open>a\<close> is a string or undefined: the empty string and undefined are
  falsy, so \<open>b\<close> is taken for both. An inherited member stands here as its text, which
  is not empty, and is truthy as the member is.
\<close>

definition js_or :: "string option \<Rightarrow> string \<Rightarrow> string" where
  "js_or a b = (case a of None \<Rightarrow> b | Some s \<Rightarrow> if s = [] then b else s)"

section \<open>helpers/sql.js: sqlForPartialUpdate\<close>

text \<open>
  The members a plain object inherits from \<^verbatim>\<open>Object.prototype\<close>, each with the text
  that a template literal renders for it (as Node.js prints them): eleven built-in
  functions, and \<^verbatim>\<open>__proto__\<close>, which reads as \<^verbatim>\<open>Object.prototype\<close> itself. All of
  them are truthy.
\<close>

definition Object_prototype :: "string \<rightharpoonup> string" where
  "Object_prototype =
     map_of
       [(''constructor'', ''function Object() { [native code] }''),
        (''__defineGetter__'', ''function __defineGetter__() { [native code] }''),
        (''__defineSetter__'', ''function __defineSetter__() { [native code] }''),
        (''hasOwnProperty'', ''function hasOwnProperty() { [native code] }''),
        (''__lookupGetter__'', ''function __lookupGetter__() { [native code] }''),
        (''__lookupSetter__'', ''function __lookupSetter__() { [native code] }''),
        (''isPrototypeOf'', ''function isPrototypeOf() { [native code] }''),
        (''propertyIsEnumerable'', ''function propertyIsEnumerable() { [native code] }''),
        (''toString'', ''function toString() { [native code] }''),
        (''valueOf'', ''function valueOf() { [native code] }''),
        (''__proto__'', ''[object Object]''),
        (''toLocaleString'', ''function toLocaleString() { [native code] }'')]"

text \<open>
  \<^verbatim>\<open>jsToSql\<close> maps JavaScript keys to column names: \<open>jsToSql k\<close> is its own
  property \<open>k\<close>, a string, \<open>None\<close> when it has none. The property read
  \<^verbatim>\<open>jsToSql[colName]\<close> gives the own property when there is one and the inherited
  member otherwise; it is undefined, here \<open>None\<close>, when there is neither.
\<close>

definition name_map_read :: "(string \<rightharpoonup> string) \<Rightarrow> string \<Rightarrow> string option" where
  "name_map_read jsToSql colName =
     (case jsToSql colName of Some s \<Rightarrow> Some s | None \<Rightarrow> Object_prototype colName)"

text \<open>
  \<^verbatim>\<open>keys.map((colName, idx) => `"${jsToSql[colName] || colName}"=$${idx + 1}`)\<close>
\<close>

definition cols_of :: "string list \<Rightarrow> (string \<rightharpoonup> string) \<Rightarrow> string list" where
  "cols_of keys jsToSql =
     map (\<lambda>(colName, idx).
            ''\"'' @ js_or (name_map_read jsToSql colName) colName @ ''\"=$'' @ dec (idx + 1))
       (zip keys [0..<length keys])"

record partialUpdate =
  setCols :: string
  values' :: "jsval list"

definition sqlForPartialUpdate ::
  "jsobj \<Rightarrow> (string \<rightharpoonup> string) \<Rightarrow> 'e error + partialUpdate" where
  "sqlForPartialUpdate dataToUpdate jsToSql =
     (let keys = Object_keys dataToUpdate in
      if length keys = 0 then Inl (BadRequestError (Msg ''No data''))
      else
        let cols = cols_of keys jsToSql
        in Inr \<lparr>setCols = join '', '' cols, values' = Object_values dataToUpdate\<rparr>)"

section \<open>models/company.js and models/job.js: findAll\<close>

text \<open>
  The two arrays \<^verbatim>\<open>whereConditions\<close> and \<^verbatim>\<open>values\<close> after the three
  \<^verbatim>\<open>if\<close> statements of \<^verbatim>\<open>Company.findAll\<close>; each statement pushes one predicate,
  numbered by the current length of \<^verbatim>\<open>values\<close>, and then one value.
\<close>

definition Company_whereConditions :: "jsobj \<Rightarrow> string list \<times> jsval list" where
  "Company_whereConditions queries =
     (let (whereConditions, vals) = ([], []);
          (whereConditions, vals) =
            (if has_key ''name'' queries
             then (whereConditions @ [''name ILIKE '%' || $'' @ dec (length vals + 1) @ '' || '%'' @ [CHR 0x27]],
                   vals @ [get_prop queries ''name''])
             else (whereConditions, vals));
          (whereConditions, vals) =
            (if has_key ''minEmployees'' queries
             then (whereConditions @ [''num_employees >= $'' @ dec (length vals + 1)],
                   vals @ [get_prop queries ''minEmployees''])
             else (whereConditions, vals));
          (whereConditions, vals) =
            (if has_key ''maxEmployees'' queries
             then (whereConditions @ [''num_employees <= $'' @ dec (length vals + 1)],
                   vals @ [get_prop queries ''maxEmployees''])
             else (whereConditions, vals))
      in (whereConditions, vals))"

text \<open>
  \<^verbatim>\<open>whereConditions.length > 0 ? 'WHERE ' + whereConditions.join(' AND ') : ''\<close>
\<close>

definition whereClause :: "string list \<Rightarrow> string" where
  "whereClause whereConditions =
     (if length whereConditions > 0 then ''WHERE '' @ join '' AND '' whereConditions else [])"

text \<open>The template literal handed to \<^verbatim>\<open>db.query\<close>, line breaks and indentation included.\<close>

definition Company_sql :: "string \<Rightarrow> string" where
  "Company_sql clause =
     ''\<newline>      SELECT handle,'' @
     ''\<newline>             name,'' @
     ''\<newline>             description,'' @
     ''\<newline>             num_employees AS \"numEmployees\",'' @
     ''\<newline>             logo_url      AS \"logoUrl\"'' @
     ''\<newline>      FROM companies'' @
     ''\<newline>      '' @ clause @
     ''\<newline>      ORDER BY name'' @
     ''\<newline>    ''"

text \<open>
  The outcome of a call and the queries it sent to the executor \<^verbatim>\<open>db.query\<close>, which is
  the parameter \<open>db\<close>: it returns rows or rejects.
\<close>

record ('e, 'r) run =
  outcome :: "'e error + 'r"
  sent :: "(string \<times> jsval list) list"

definition db_query ::
  "(string \<Rightarrow> jsval list \<Rightarrow> 'e + 'r) \<Rightarrow> string \<Rightarrow> jsval list \<Rightarrow> ('e, 'r) run" where
  "db_query db sql vals =
     \<lparr>outcome = (case db sql vals of Inl e \<Rightarrow> Inl (DbError e) | Inr rows \<Rightarrow> Inr rows),
      sent = [(sql, vals)]\<rparr>"

definition Company_findAll ::
  "(string \<Rightarrow> jsnum) \<Rightarrow> (string \<Rightarrow> jsval list \<Rightarrow> 'e + 'r) \<Rightarrow> jsobj \<Rightarrow> ('e, 'r) run" where
  "Company_findAll str2num db queries =
     (if js_gt (Number str2num (get_prop queries ''minEmployees''))
               (Number str2num (get_prop queries ''maxEmployees''))
      then \<lparr>outcome = Inl (BadRequestError NoMessage), sent = []\<rparr>
      else
        let (whereConditions, vals) = Company_whereConditions queries
        in db_query db (Company_sql (whereClause whereConditions)) vals)"

text \<open>\<^verbatim>\<open>Job.findAll\<close> of \<^verbatim>\<open>models/job.js\<close>; its array of predicates is \<^verbatim>\<open>clauseStatements\<close>.\<close>

definition Job_clauseStatements :: "jsobj \<Rightarrow> string list \<times> jsval list" where
  "Job_clauseStatements queries =
     (let (clauseStatements, vals) = ([], []);
          (clauseStatements, vals) =
            (if has_key ''title'' queries
             then (clauseStatements @ [''title ILIKE '%' || $'' @ dec (length vals + 1) @ '' || '%'' @ [CHR 0x27]],
                   vals @ [get_prop queries ''title''])
             else (clauseStatements, vals));
          (clauseStatements, vals) =
            (if has_key ''minSalary'' queries
             then (clauseStatements @ [''salary >= $'' @ dec (length vals + 1)],
                   vals @ [get_prop queries ''minSalary''])
             else (clauseStatements, vals));
          (clauseStatements, vals) =
            (if has_key ''hasEquity'' queries \<and> get_prop queries ''hasEquity'' = JBool True
             then (clauseStatements @ [''equity > $'' @ dec (length vals + 1)],
                   vals @ [JNum (Fin 0)])
             else (clauseStatements, vals))
      in (clauseStatements, vals))"

definition Job_sql :: "string \<Rightarrow> string" where
  "Job_sql clause =
     ''\<newline>      SELECT id,'' @
     ''\<newline>            title,'' @
     ''\<newline>            salary,'' @
     ''\<newline>            equity,'' @
     ''\<newline>            company_handle AS \"companyHandle\"'' @
     ''\<newline>        FROM jobs'' @
     ''\<newline>        '' @ clause @
     ''\<newline>        ORDER BY id'' @
     ''\<newline>    ''"

definition Job_findAll ::
  "(string \<Rightarrow> jsval list \<Rightarrow> 'e + 'r) \<Rightarrow> jsobj \<Rightarrow> ('e, 'r) run" where
  "Job_findAll db queries =
     (let (clauseStatements, vals) = Job_clauseStatements queries
      in db_query db (Job_sql (whereClause clauseStatements)) vals)"

section \<open>routes/companies.js: GET /companies\<close>

text \<open>
  The handler works on \<^verbatim>\<open>req.query\<close>: it overwrites the two bounds, when present,
  with their \<^verbatim>\<open>Number(...)\<close>, validates the object against the schema and then calls
  \<^verbatim>\<open>Company.findAll\<close>. The validator (the jsonschema library with
  \<^verbatim>\<open>schemas/getCompanies.json\<close>, neither among the source files) is the parameter
  \<open>validate\<close>: it returns the \<^verbatim>\<open>stack\<close> texts of \<^verbatim>\<open>result.errors\<close>, and the
  request is valid when there are none. An assignment to a property that exists keeps
  its place in the enumeration order.
\<close>

definition companies_get_coerce :: "(string \<Rightarrow> jsnum) \<Rightarrow> jsobj \<Rightarrow> jsobj" where
  "companies_get_coerce str2num req_query =
     (let queries = req_query;
          queries =
            (if has_key ''minEmployees'' queries
             then AList.update ''minEmployees''
                    (JNum (Number str2num (get_prop queries ''minEmployees''))) queries
             else queries);
          queries =
            (if has_key ''maxEmployees'' queries
             then AList.update ''maxEmployees''
                    (JNum (Number str2num (get_prop queries ''maxEmployees''))) queries
             else queries)
      in queries)"

definition companies_get ::
  "(string \<Rightarrow> jsnum) \<Rightarrow> (jsobj \<Rightarrow> string list) \<Rightarrow> (string \<Rightarrow> jsval list \<Rightarrow> 'e + 'r) \<Rightarrow>
   jsobj \<Rightarrow> ('e, 'r) run" where
  "companies_get str2num validate db req_query =
     (let queries = companies_get_coerce str2num req_query;
          errs = validate queries
      in if errs \<noteq> [] then \<lparr>outcome = Inl (BadRequestError (Msgs errs)), sent = []\<rparr>
         else Company_findAll str2num db queries)"

text \<open>
  Two stand-ins for the validator, for concrete runs: one that accepts every request and
  one that reports an error for every request.
\<close>

definition accept_all :: "jsobj \<Rightarrow> string list" where
  "accept_all queries = []"

definition reject_all :: "jsobj \<Rightarrow> string list" where
  "reject_all queries = [''instance is not allowed'']"

section \<open>What the specification says of a clause\<close>

text \<open>
  A positional placeholder is a \<^verbatim>\<open>$\<close> directly followed by decimal digits, as many as
  there are. \<open>placeholders s\<close> lists the numbers of the placeholders of \<open>s\<close> from
  left to right, so a clause that references \<^verbatim>\<open>$1\<close> to \<^verbatim>\<open>$n\<close>, each once and in
  increasing order, is one with \<open>placeholders s = [1..<Suc n]\<close>.
\<close>

definition is_digit :: "char \<Rightarrow> bool" where
  "is_digit c = (48 \<le> (of_char c :: nat) \<and> (of_char c :: nat) \<le> 57)"

definition digit_val :: "char \<Rightarrow> nat" where
  "digit_val c = of_char c - 48"

definition read_nat :: "string \<Rightarrow> nat" where
  "read_nat ds = foldl (\<lambda>n c. 10 * n + digit_val c) 0 ds"

fun placeholders :: "string \<Rightarrow> nat list" where
  "placeholders [] = []"
| "placeholders (c # cs) =
     (if c = CHR ''$'' \<and> takeWhile is_digit cs \<noteq> []
      then read_nat (takeWhile is_digit cs) # placeholders cs
      else placeholders cs)"

text \<open>
  Two stand-ins for the parameters, for concrete runs: a string-to-number conversion
  that reads strings of decimal digits (on which it agrees with the built-in) and gives
  NaN for every other string, and an executor that returns no rows.
\<close>

definition digits_to_number :: "string \<Rightarrow> jsnum" where
  "digits_to_number s =
     (if s \<noteq> [] \<and> list_all is_digit s then Fin (real (read_nat s)) else NaN)"

definition empty_db :: "string \<Rightarrow> jsval list \<Rightarrow> unit + jsobj list" where
  "empty_db sql vals = Inr []"

text \<open>Whether a text occurs in another, for "the WHERE keyword is omitted".\<close>

fun starts_with :: "string \<Rightarrow> string \<Rightarrow> bool" where
  "starts_with [] s = True"
| "starts_with (p # ps) [] = False"
| "starts_with (p # ps) (c # cs) = (p = c \<and> starts_with ps cs)"

fun contains_text :: "string \<Rightarrow> string \<Rightarrow> bool" where
  "contains_text p [] = starts_with p []"
| "contains_text p (c # cs) = (starts_with p (c # cs) \<or> contains_text p cs)"

text \<open>
  The parts of a clause that the separator \<^verbatim>\<open>, \<close> delimits, from left to right:
  \<^verbatim>\<open>clause.split(", ")\<close>, with \<open>acc\<close> the part being read.
\<close>

fun pieces :: "string \<Rightarrow> string \<Rightarrow> string list" where
  "pieces acc [] = [acc]"
| "pieces acc [c] = [acc @ [c]]"
| "pieces acc (c # d # cs) =
     (if c = CHR '','' \<and> d = CHR '' '' then acc # pieces [] cs
      else pieces (acc @ [c]) (d # cs))"

text \<open>
  The filter-predicate builder in the specification's words: rules in a declared
  order, each with a key, a predicate template that takes the placeholder position, and
  an optional transform of the value to bind. A rule whose key is present in the
  criteria emits its predicate at the current position and appends the bound value.
\<close>

record FilterRule =
  rule_key :: string
  predicateTemplate :: "nat \<Rightarrow> string"
  valueTransform :: "(jsval \<Rightarrow> jsval) option"

fun spec_buildFilter ::
  "jsobj \<Rightarrow> FilterRule list \<Rightarrow> string list \<times> jsval list \<Rightarrow> string list \<times> jsval list" where
  "spec_buildFilter criteria [] acc = acc"
| "spec_buildFilter criteria (r # rs) (preds, vals) =
     (if has_key (rule_key r) criteria
      then spec_buildFilter criteria rs
             (preds @ [predicateTemplate r (length vals + 1)],
              vals @ [case valueTransform r of
                        None \<Rightarrow> get_prop criteria (rule_key r)
                      | Some f \<Rightarrow> f (get_prop criteria (rule_key r))])
      else spec_buildFilter criteria rs (preds, vals))"

definition spec_company_rules :: "FilterRule list" where
  "spec_company_rules =
     [\<lparr>rule_key = ''name'',
       predicateTemplate = (\<lambda>n. ''name ILIKE '%' || $'' @ dec n @ '' || '%'' @ [CHR 0x27]),
       valueTransform = None\<rparr>,
      \<lparr>rule_key = ''minEmployees'',
       predicateTemplate = (\<lambda>n. ''num_employees >= $'' @ dec n),
       valueTransform = None\<rparr>,
      \<lparr>rule_key = ''maxEmployees'',
       predicateTemplate = (\<lambda>n. ''num_employees <= $'' @ dec n),
       valueTransform = None\<rparr>]"

definition spec_job_rules :: "FilterRule list" where
  "spec_job_rules =
     [\<lparr>rule_key = ''title'',
       predicateTemplate = (\<lambda>n. ''title ILIKE '%' || $'' @ dec n @ '' || '%'' @ [CHR 0x27]),
       valueTransform = None\<rparr>,
      \<lparr>rule_key = ''minSalary'',
       predicateTemplate = (\<lambda>n. ''salary >= $'' @ dec n),
       valueTransform = None\<rparr>,
      \<lparr>rule_key = ''hasEquity'',
       predicateTemplate = (\<lambda>n. ''equity > $'' @ dec n),
       valueTransform = Some (\<lambda>v. JNum (Fin 0))\<rparr>]"

section \<open>Decimal text and placeholders\<close>

lemma dec_small:
  "dec (Suc 0) = ''1''" "dec (Suc (Suc 0)) = ''2''" "dec (Suc (Suc (Suc 0))) = ''3''"
  "dec 1 = ''1''" "dec 2 = ''2''" "dec 3 = ''3''"
  by code_simp+

lemma is_digit_digit_char: "d < 10 \<Longrightarrow> is_digit (digit_char d)"
  by (simp add: is_digit_def digit_char_def)

lemma digit_val_digit_char: "d < 10 \<Longrightarrow> digit_val (digit_char d) = d"
  by (simp add: digit_val_def digit_char_def)

lemma dec_digits: "c \<in> set (dec n) \<Longrightarrow> is_digit c"
proof (induction n arbitrary: c rule: dec.induct)
  case (1 n)
  show ?case
  proof (cases "n < 10")
    case True
    with "1.prems" show ?thesis
      by (simp add: dec.simps [of n] is_digit_digit_char)
  next
    case False
    with "1.prems" have "c \<in> set (dec (n div 10)) \<or> c = digit_char (n mod 10)"
      by (auto simp: dec.simps [of n])
    with False "1.IH" show ?thesis
      by (auto simp: is_digit_digit_char)
  qed
qed

lemma dec_nonempty: "dec n \<noteq> []"
  by (simp add: dec.simps [of n])

lemma read_nat_snoc: "read_nat (ds @ [c]) = 10 * read_nat ds + digit_val c"
  by (simp add: read_nat_def)

lemma read_nat_dec: "read_nat (dec n) = n"
proof (induction n rule: dec.induct)
  case (1 n)
  show ?case
  proof (cases "n < 10")
    case True
    then show ?thesis
      by (simp add: dec.simps [of n] read_nat_def digit_val_digit_char)
  next
    case False
    with "1.IH" have "read_nat (dec (n div 10)) = n div 10" by simp
    with False show ?thesis
      by (simp add: dec.simps [of n] read_nat_snoc digit_val_digit_char)
  qed
qed

lemma placeholders_digits: "(\<And>c. c \<in> set s \<Longrightarrow> is_digit c) \<Longrightarrow> placeholders s = []"
proof (induction s)
  case Nil
  show ?case by simp
next
  case (Cons c cs)
  have "is_digit c" using Cons.prems by simp
  then have "c \<noteq> CHR ''$''" by (auto simp: is_digit_def)
  with Cons show ?case by simp
qed

lemma takeWhile_digits_append:
  "b = [] \<or> \<not> is_digit (hd b) \<Longrightarrow> takeWhile is_digit (a @ b) = takeWhile is_digit a"
proof (induction a)
  case Nil
  then show ?case by (cases b) simp_all
next
  case (Cons c cs)
  then show ?case by simp
qed

lemma placeholders_append:
  "b = [] \<or> \<not> is_digit (hd b) \<Longrightarrow> placeholders (a @ b) = placeholders a @ placeholders b"
  by (induction a) (simp_all add: takeWhile_digits_append)

lemma placeholders_marker: "placeholders (CHR ''$'' # dec n) = [n]"
proof -
  have tw: "takeWhile is_digit (dec n) = dec n"
    by (simp add: takeWhile_eq_all_conv dec_digits)
  have pd: "placeholders (dec n) = []"
    by (rule placeholders_digits) (rule dec_digits)
  show ?thesis
    by (simp add: tw pd dec_nonempty read_nat_dec)
qed

lemma placeholders_assignment:
  assumes "placeholders col = []"
  shows "placeholders (''\"'' @ col @ ''\"=$'' @ dec n) = [n]"
proof -
  have "placeholders (''\"'' @ col @ ''\"=$'' @ dec n)
          = placeholders ((''\"'' @ col) @ (''\"='' @ (CHR ''$'' # dec n)))"
    by simp
  also have "\<dots> = placeholders (''\"'' @ col) @ placeholders (''\"='' @ (CHR ''$'' # dec n))"
    by (rule placeholders_append) (simp add: is_digit_def)
  also have "\<dots> = [n]"
    using assms by (simp add: placeholders_marker del: placeholders.simps(2) add: placeholders.simps(2) [of "CHR 0x22"] placeholders.simps(2) [of "CHR ''=''"])
  finally show ?thesis .
qed

lemma join_Cons: "xs \<noteq> [] \<Longrightarrow> join sep (x # xs) = x @ sep @ join sep xs"
  by (cases xs) simp_all

lemma placeholders_cols:
  "(\<And>k. k \<in> set keys \<Longrightarrow> placeholders (f k) = []) \<Longrightarrow>
   placeholders (join '', ''
       (map (\<lambda>(colName, idx). ''\"'' @ f colName @ ''\"=$'' @ dec (idx + 1))
         (zip keys [i..<i + length keys])))
     = [i + 1..<i + 1 + length keys]"
proof (induction keys arbitrary: i)
  case Nil
  show ?case by simp
next
  case (Cons k ks)
  have upt: "[i..<i + length (k # ks)] = i # [Suc i..<Suc i + length ks]"
    by (subst upt_rec) simp
  have upt': "[i + 1..<i + 1 + length (k # ks)] = (i + 1) # [Suc i + 1..<Suc i + 1 + length ks]"
    by (subst upt_rec) simp
  have hd: "placeholders (''\"'' @ f k @ ''\"=$'' @ dec (i + 1)) = [i + 1]"
    by (rule placeholders_assignment) (simp add: Cons.prems)
  have tl: "placeholders (join '', ''
       (map (\<lambda>(colName, idx). ''\"'' @ f colName @ ''\"=$'' @ dec (idx + 1))
         (zip ks [Suc i..<Suc i + length ks]))) = [Suc i + 1..<Suc i + 1 + length ks]"
    by (rule Cons.IH) (simp add: Cons.prems)
  show ?case
  proof (cases ks)
    case Nil
    with hd show ?thesis by (simp add: upt upt')
  next
    case (Cons k' ks')
    let ?rest = "map (\<lambda>(colName, idx). ''\"'' @ f colName @ ''\"=$'' @ dec (idx + 1))
         (zip ks [Suc i..<Suc i + length ks])"
    have ne: "?rest \<noteq> []" using Cons by (simp add: upt_conv_Cons)
    have "placeholders (join '', '' ((''\"'' @ f k @ ''\"=$'' @ dec (i + 1)) # ?rest))
            = placeholders ((''\"'' @ f k @ ''\"=$'' @ dec (i + 1)) @ ('', '' @ join '', '' ?rest))"
      using ne by (simp add: join_Cons)
    also have "\<dots> = placeholders (''\"'' @ f k @ ''\"=$'' @ dec (i + 1)) @ placeholders ('', '' @ join '', '' ?rest)"
      by (rule placeholders_append) (simp add: is_digit_def)
    also have "\<dots> = [i + 1] @ placeholders (join '', '' ?rest)"
      by (simp only: hd) simp
    also have "\<dots> = [i + 1..<i + 1 + length (k # ks)]"
      by (simp only: tl upt') simp
    finally show ?thesis by (simp only: upt list.map zip_Cons_Cons prod.case)
  qed
qed

section \<open>Placeholders of the clauses the code builds\<close>

lemma Company_placeholders:
  "placeholders (whereClause (fst (Company_whereConditions q)))
     = [1..<Suc (length (snd (Company_whereConditions q)))]"
  by (simp add: Company_whereConditions_def whereClause_def dec_small is_digit_def
      read_nat_def digit_val_def)

lemma Job_placeholders:
  "placeholders (whereClause (fst (Job_clauseStatements q)))
     = [1..<Suc (length (snd (Job_clauseStatements q)))]"
  by (simp add: Job_clauseStatements_def whereClause_def dec_small is_digit_def
      read_nat_def digit_val_def)

lemma Company_sql_placeholders: "placeholders (Company_sql c) = placeholders c"
proof -
  have "placeholders (Company_sql c) = placeholders ((''\<newline>      SELECT handle,'' @
     ''\<newline>             name,'' @
     ''\<newline>             description,'' @
     ''\<newline>             num_employees AS \"numEmployees\",'' @
     ''\<newline>             logo_url      AS \"logoUrl\"'' @
     ''\<newline>      FROM companies'' @
     ''\<newline>      '' @ c) @
     (''\<newline>      ORDER BY name'' @
     ''\<newline>    ''))" by (simp add: Company_sql_def)
  also have "\<dots> = placeholders c"
    by (subst placeholders_append) (simp_all add: is_digit_def)
  finally show ?thesis .
qed

lemma Job_sql_placeholders: "placeholders (Job_sql c) = placeholders c"
proof -
  have "placeholders (Job_sql c) = placeholders ((''\<newline>      SELECT id,'' @
     ''\<newline>            title,'' @
     ''\<newline>            salary,'' @
     ''\<newline>            equity,'' @
     ''\<newline>            company_handle AS \"companyHandle\"'' @
     ''\<newline>        FROM jobs'' @
     ''\<newline>        '' @ c) @
     (''\<newline>        ORDER BY id'' @
     ''\<newline>    ''))" by (simp add: Job_sql_def)
  also have "\<dots> = placeholders c"
    by (subst placeholders_append) (simp_all add: is_digit_def)
  finally show ?thesis .
qed

lemma sqlForPartialUpdate_placeholders:
  assumes "(sqlForPartialUpdate dataToUpdate jsToSql :: 'e error + partialUpdate) = Inr r"
    and "\<And>k. k \<in> set (Object_keys dataToUpdate) \<Longrightarrow> placeholders (js_or (name_map_read jsToSql k) k) = []"
  shows "placeholders (setCols r) = [1..<Suc (length (values' r))]"
proof -
  from assms(1) have r: "r = \<lparr>setCols = join '', '' (cols_of (Object_keys dataToUpdate) jsToSql),
      values' = Object_values dataToUpdate\<rparr>"
    by (auto simp: sqlForPartialUpdate_def Let_def split: if_splits)
  have "placeholders (join '', '' (cols_of (Object_keys dataToUpdate) jsToSql))
      = [0 + 1..<0 + 1 + length (Object_keys dataToUpdate)]"
    unfolding cols_of_def
    using placeholders_cols [of "Object_keys dataToUpdate" "\<lambda>k. js_or (name_map_read jsToSql k) k" 0] assms(2)
    by simp
  with r show ?thesis by (simp add: Object_keys_def Object_values_def)
qed

section \<open>sqlForPartialUpdate, case by case\<close>

lemma cols_of_length: "length (cols_of keys jsToSql) = length keys"
  by (simp add: cols_of_def)

lemma cols_of_nth:
  "i < length keys \<Longrightarrow>
   cols_of keys jsToSql ! i
     = ''\"'' @ js_or (name_map_read jsToSql (keys ! i)) (keys ! i) @ ''\"=$'' @ dec (i + 1)"
  by (simp add: cols_of_def)

lemma sqlForPartialUpdate_Inr:
  "dataToUpdate \<noteq> [] \<Longrightarrow>
   sqlForPartialUpdate dataToUpdate jsToSql
     = Inr \<lparr>setCols = join '', '' (cols_of (Object_keys dataToUpdate) jsToSql),
            values' = Object_values dataToUpdate\<rparr>"
  by (simp add: sqlForPartialUpdate_def Object_keys_def)

lemma sqlForPartialUpdate_Inl:
  "sqlForPartialUpdate [] jsToSql = Inl (BadRequestError (Msg ''No data''))"
  by (simp add: sqlForPartialUpdate_def Object_keys_def)

section \<open>The comma-separated parts of the clause\<close>

lemma pieces_whole: "\<not> contains_text '', '' p \<Longrightarrow> pieces acc p = [acc @ p]"
  by (induction acc p rule: pieces.induct) auto

lemma pieces_first:
  "\<not> contains_text '', '' p \<Longrightarrow> pieces acc (p @ '', '' @ rest) = (acc @ p) # pieces [] rest"
proof (induction p arbitrary: acc)
  case Nil
  show ?case by simp
next
  case (Cons c p)
  show ?case
  proof (cases p)
    case Nil
    with Cons.prems show ?thesis by simp
  next
    case (Cons d p')
    with Cons.prems have "\<not> (c = CHR '','' \<and> d = CHR '' '')" and "\<not> contains_text '', '' p"
      by auto
    with Cons.IH [of "acc @ [c]"] Cons show ?thesis by simp
  qed
qed

lemma pieces_join:
  "cols \<noteq> [] \<Longrightarrow> (\<And>c. c \<in> set cols \<Longrightarrow> \<not> contains_text '', '' c) \<Longrightarrow>
   pieces [] (join '', '' cols) = cols"
proof (induction cols)
  case Nil
  then show ?case by simp
next
  case (Cons x xs)
  have x: "\<not> contains_text '', '' x" by (simp add: Cons.prems)
  show ?case
  proof (cases xs)
    case Nil
    with x show ?thesis by (simp add: pieces_whole)
  next
    case (Cons y ys)
    then have "pieces [] (join '', '' xs) = xs"
      by (intro Cons.IH) (simp_all add: Cons.prems)
    with x Cons show ?thesis
      using pieces_first [of x "[]" "join '', '' xs"] by simp
  qed
qed

lemma contains_comma_append:
  "contains_text '', '' (a @ b) =
     (contains_text '', '' a \<or> contains_text '', '' b
      \<or> (a \<noteq> [] \<and> last a = CHR '','' \<and> b \<noteq> [] \<and> hd b = CHR '' ''))"
proof (induction a)
  case Nil
  show ?case by simp
next
  case (Cons c a)
  show ?case
  proof (cases a)
    case Nil
    show ?thesis by (cases b) (auto simp: Nil)
  next
    case (Cons d a')
    with Cons.IH show ?thesis by auto
  qed
qed

lemma no_comma_digits: "(\<And>c. c \<in> set s \<Longrightarrow> is_digit c) \<Longrightarrow> \<not> contains_text '', '' s"
proof (induction s)
  case Nil
  show ?case by simp
next
  case (Cons c s)
  have "is_digit c" by (simp add: Cons.prems)
  then have "c \<noteq> CHR '',''" by (auto simp: is_digit_def)
  moreover have "\<not> contains_text '', '' s" by (rule Cons.IH) (simp add: Cons.prems)
  ultimately show ?case by simp
qed

lemma no_comma_assignment:
  assumes "\<not> contains_text '', '' col"
  shows "\<not> contains_text '', '' (''\"'' @ col @ ''\"=$'' @ dec n)"
proof -
  have d: "\<not> contains_text '', '' (dec n)"
    by (rule no_comma_digits) (rule dec_digits)
  have "\<not> contains_text '', '' (''\"=$'' @ dec n)"
    by (subst contains_comma_append) (simp add: d)
  moreover have "\<not> contains_text '', '' (''\"'' @ col)"
    by (subst contains_comma_append) (simp add: assms)
  ultimately have "\<not> contains_text '', '' ((''\"'' @ col) @ (''\"=$'' @ dec n))"
    by (subst contains_comma_append) simp
  then show ?thesis by simp
qed

lemma cols_of_no_comma:
  assumes "\<And>k. k \<in> set keys \<Longrightarrow> \<not> contains_text '', '' (js_or (name_map_read jsToSql k) k)"
    and "c \<in> set (cols_of keys jsToSql)"
  shows "\<not> contains_text '', '' c"
proof -
  from assms(2) obtain i where i: "i < length keys" and c: "c = cols_of keys jsToSql ! i"
    by (auto simp: in_set_conv_nth cols_of_length)
  from i have "\<not> contains_text '', '' (js_or (name_map_read jsToSql (keys ! i)) (keys ! i))"
    by (simp add: assms(1))
  then show ?thesis
    unfolding c cols_of_nth [OF i] by (rule no_comma_assignment)
qed

lemma pieces_setCols:
  assumes "keys \<noteq> []"
    and "\<And>k. k \<in> set keys \<Longrightarrow> \<not> contains_text '', '' (js_or (name_map_read jsToSql k) k)"
  shows "pieces [] (join '', '' (cols_of keys jsToSql)) = cols_of keys jsToSql"
proof (rule pieces_join)
  from assms(1) show "cols_of keys jsToSql \<noteq> []"
    using cols_of_length [of keys jsToSql] by auto
next
  fix c assume "c \<in> set (cols_of keys jsToSql)"
  with assms(2) show "\<not> contains_text '', '' c" by (rule cols_of_no_comma)
qed

text \<open>The inherited names, and what the code does with one.\<close>

lemma Object_prototype_None_iff:
  "Object_prototype k = None \<longleftrightarrow>
     k \<notin> {''constructor'', ''__defineGetter__'', ''__defineSetter__'', ''hasOwnProperty'',
          ''__lookupGetter__'', ''__lookupSetter__'', ''isPrototypeOf'',
          ''propertyIsEnumerable'', ''toString'', ''valueOf'', ''__proto__'',
          ''toLocaleString''}"
  by (simp add: Object_prototype_def)

lemma filter_keys_not_inherited:
  "Object_prototype ''name'' = None" "Object_prototype ''minEmployees'' = None"
  "Object_prototype ''maxEmployees'' = None" "Object_prototype ''title'' = None"
  "Object_prototype ''minSalary'' = None" "Object_prototype ''hasEquity'' = None"
  by (simp_all add: Object_prototype_def)

lemma sqlForPartialUpdate_inherited_member:
  "sqlForPartialUpdate [(''constructor'', JStr ''x'')] Map.empty
     = Inr \<lparr>setCols = ''\"function Object() { [native code] }\"=$1'', values' = [JStr ''x'']\<rparr>"
  by (simp add: sqlForPartialUpdate_def cols_of_def Object_keys_def Object_values_def
      js_or_def name_map_read_def Object_prototype_def dec_small)

section \<open>The filter builders and the declared rules\<close>

lemma Company_refines_spec:
  "Company_whereConditions queries = spec_buildFilter queries spec_company_rules ([], [])"
  by (simp add: Company_whereConditions_def spec_company_rules_def)

lemma Job_refines_spec:
  "Job_clauseStatements queries =
     spec_buildFilter queries
       (if has_key ''hasEquity'' queries \<and> get_prop queries ''hasEquity'' \<noteq> JBool True
        then take 2 spec_job_rules else spec_job_rules) ([], [])"
  by (simp add: Job_clauseStatements_def spec_job_rules_def)

lemma same_properties:
  assumes "distinct (map fst queries)" "distinct (map fst queries')" "set queries = set queries'"
  shows "has_key k queries = has_key k queries'" "get_prop queries k = get_prop queries' k"
proof -
  from assms have "map_of queries = map_of queries'"
    by (simp add: map_of_inject_set)
  then show "has_key k queries = has_key k queries'" "get_prop queries k = get_prop queries' k"
    by (simp_all add: has_key_def get_prop_def)
qed

lemma whereClause_join:
  "whereClause conds = (if conds = [] then [] else ''WHERE '' @ join '' AND '' conds)"
  by (simp add: whereClause_def)

lemma has_key_delete: "has_key k (AList.delete k' queries) = (k \<noteq> k' \<and> has_key k queries)"
  by (auto simp: has_key_def delete_conv')

lemma get_prop_delete: "k \<noteq> k' \<Longrightarrow> get_prop (AList.delete k' queries) k = get_prop queries k"
  by (simp add: get_prop_def delete_conv')

section \<open>findAll and the route, case by case\<close>

lemma js_gt_NaN_right: "js_gt a NaN = False"
  by (cases a) simp_all

lemma sent_db_query: "sent (db_query db sql vals) = [(sql, vals)]"
  by (simp add: db_query_def)

lemma outcome_db_query:
  "outcome (db_query db sql vals) \<noteq> Inl (BadRequestError m)"
  "db sql vals = Inr rows \<Longrightarrow> outcome (db_query db sql vals) = Inr rows"
  by (simp_all add: db_query_def split: sum.splits)

lemma Company_findAll_reject:
  "js_gt (Number str2num (get_prop queries ''minEmployees''))
         (Number str2num (get_prop queries ''maxEmployees'')) \<Longrightarrow>
   Company_findAll str2num db queries = \<lparr>outcome = Inl (BadRequestError NoMessage), sent = []\<rparr>"
  by (simp add: Company_findAll_def)

lemma Company_findAll_pass:
  "\<not> js_gt (Number str2num (get_prop queries ''minEmployees''))
           (Number str2num (get_prop queries ''maxEmployees'')) \<Longrightarrow>
   Company_findAll str2num db queries
     = db_query db (Company_sql (whereClause (fst (Company_whereConditions queries))))
         (snd (Company_whereConditions queries))"
  by (simp add: Company_findAll_def split_beta)

lemma Job_findAll_eq:
  "Job_findAll db queries
     = db_query db (Job_sql (whereClause (fst (Job_clauseStatements queries))))
         (snd (Job_clauseStatements queries))"
  by (simp add: Job_findAll_def split_beta)

lemma absent_undefined: "\<not> has_key k queries \<Longrightarrow> get_prop queries k = JUndefined"
  by (simp add: has_key_def get_prop_def)

lemma Company_sql_no_where: "\<not> contains_text ''WHERE'' (Company_sql [])"
  by (simp add: Company_sql_def)

lemma Job_sql_no_where: "\<not> contains_text ''WHERE'' (Job_sql [])"
  by (simp add: Job_sql_def)

lemma coerce_Number:
  "Number str2num (get_prop (companies_get_coerce str2num req_query) ''minEmployees'')
     = Number str2num (get_prop req_query ''minEmployees'')"
  "Number str2num (get_prop (companies_get_coerce str2num req_query) ''maxEmployees'')
     = Number str2num (get_prop req_query ''maxEmployees'')"
  by (auto simp: companies_get_coerce_def get_prop_def has_key_def update_conv' Let_def
      split: option.splits)

lemma sent_Company_findAll:
  "sent (Company_findAll str2num db queries) = [] \<or>
   sent (Company_findAll str2num db queries)
     = [(Company_sql (whereClause (fst (Company_whereConditions queries))),
         snd (Company_whereConditions queries))]"
  by (cases "js_gt (Number str2num (get_prop queries ''minEmployees''))
          (Number str2num (get_prop queries ''maxEmployees''))")
    (simp_all add: Company_findAll_reject Company_findAll_pass sent_db_query)

section \<open>The claims\<close>

text \<open>
  C1 (amended). Every clause a builder returns references exactly the placeholders
  \<^verbatim>\<open>$1\<close> to \<^verbatim>\<open>$n\<close>, \<open>n\<close> the length of its array of values, each once and in
  increasing order from left to right: the predicates of \<^verbatim>\<open>Company.findAll\<close> and
  \<^verbatim>\<open>Job.findAll\<close> (and the whole statement they are put into) for every request,
  and the assignments of \<^verbatim>\<open>sqlForPartialUpdate\<close> for every update in which no column
  name, once resolved, holds a placeholder of its own. \<^verbatim>\<open>sqlForPartialUpdate\<close> copies
  column names into the clause unescaped.
\<close>

theorem C1_placeholders_numbered:
  "((sqlForPartialUpdate dataToUpdate jsToSql :: 'e error + partialUpdate) = Inr r \<longrightarrow>
      (\<forall>k \<in> set (Object_keys dataToUpdate).
          placeholders (js_or (name_map_read jsToSql k) k) = []) \<longrightarrow>
      placeholders (setCols r) = [1..<Suc (length (values' r))])
   \<and> placeholders (whereClause (fst (Company_whereConditions queries)))
       = [1..<Suc (length (snd (Company_whereConditions queries)))]
   \<and> placeholders (Company_sql (whereClause (fst (Company_whereConditions queries))))
       = [1..<Suc (length (snd (Company_whereConditions queries)))]
   \<and> placeholders (whereClause (fst (Job_clauseStatements queries)))
       = [1..<Suc (length (snd (Job_clauseStatements queries)))]
   \<and> placeholders (Job_sql (whereClause (fst (Job_clauseStatements queries))))
       = [1..<Suc (length (snd (Job_clauseStatements queries)))]"
  using sqlForPartialUpdate_placeholders [of dataToUpdate jsToSql r]
  by (simp only: Company_sql_placeholders Job_sql_placeholders Company_placeholders
      Job_placeholders) blast

text \<open>The theorem at the update of the documentation and at a request with four filters.\<close>

theorem C1_placeholders_numbered_witness:
  "(sqlForPartialUpdate [(''firstName'', JStr ''Aliya''), (''age'', JNum (Fin 32))]
      [''firstName'' \<mapsto> ''first_name'']
      = (Inr \<lparr>setCols = ''\"first_name\"=$1, \"age\"=$2'',
               values' = [JStr ''Aliya'', JNum (Fin 32)]\<rparr> :: unit error + partialUpdate))
   \<and> placeholders ''\"first_name\"=$1, \"age\"=$2'' = [1, 2]
   \<and> placeholders (whereClause (fst (Company_whereConditions
         [(''maxEmployees'', JNum (Fin 50)), (''hasEquity'', JBool True),
          (''name'', JStr ''net''), (''title'', JStr ''dev'')]))) = [1, 2]
   \<and> placeholders (whereClause (fst (Job_clauseStatements
         [(''maxEmployees'', JNum (Fin 50)), (''hasEquity'', JBool True),
          (''name'', JStr ''net''), (''title'', JStr ''dev'')]))) = [1, 2]"
proof -
  let ?d = "[(''firstName'', JStr ''Aliya''), (''age'', JNum (Fin 32))]"
  let ?m = "[''firstName'' \<mapsto> ''first_name'']"
  let ?r = "\<lparr>setCols = ''\"first_name\"=$1, \"age\"=$2'', values' = [JStr ''Aliya'', JNum (Fin 32)]\<rparr>"
  let ?q = "[(''maxEmployees'', JNum (Fin 50)), (''hasEquity'', JBool True),
          (''name'', JStr ''net''), (''title'', JStr ''dev'')]"
  note inst = C1_placeholders_numbered [where ?'e = unit, of ?d ?m ?r ?q]
  have run: "sqlForPartialUpdate ?d ?m = (Inr ?r :: unit error + partialUpdate)"
    by (simp add: sqlForPartialUpdate_def cols_of_def Object_keys_def Object_values_def
        js_or_def name_map_read_def Object_prototype_def dec_small)
  have cols: "\<forall>k \<in> set (Object_keys ?d). placeholders (js_or (name_map_read ?m k) k) = []"
    by (simp add: Object_keys_def js_or_def name_map_read_def Object_prototype_def)
  have len: "length (snd (Company_whereConditions ?q)) = 2"
    by (simp add: Company_whereConditions_def has_key_def)
  have len': "length (snd (Job_clauseStatements ?q)) = 2"
    by (simp add: Job_clauseStatements_def has_key_def get_prop_def)
  have up: "[1..<Suc 2] = [1, 2]" by (simp add: upt_rec)
  from inst run cols have "placeholders (setCols ?r) = [1..<Suc (length (values' ?r))]"
    by blast
  then have a: "placeholders ''\"first_name\"=$1, \"age\"=$2'' = [1, 2]"
    by (simp add: up)
  from inst have "placeholders (whereClause (fst (Company_whereConditions ?q)))
       = [1..<Suc (length (snd (Company_whereConditions ?q)))]"
    by blast
  then have b: "placeholders (whereClause (fst (Company_whereConditions ?q))) = [1, 2]"
    by (simp only: len up)
  from inst have "placeholders (whereClause (fst (Job_clauseStatements ?q)))
       = [1..<Suc (length (snd (Job_clauseStatements ?q)))]"
    by blast
  then have c: "placeholders (whereClause (fst (Job_clauseStatements ?q))) = [1, 2]"
    by (simp only: len' up)
  from run a b c show ?thesis by blast
qed

text \<open>
  Without the condition the claim fails: the key \<^verbatim>\<open>a"=$2, "b\<close> is copied into the
  clause as it is, and the clause then references \<^verbatim>\<open>$2\<close> and \<^verbatim>\<open>$1\<close> for one value.
\<close>

theorem C1_placeholders_counterexample:
  "sqlForPartialUpdate [(''a\"=$2, \"b'', JNum (Fin 1))] Map.empty
      = (Inr \<lparr>setCols = ''\"a\"=$2, \"b\"=$1'', values' = [JNum (Fin 1)]\<rparr>
          :: unit error + partialUpdate)
   \<and> placeholders ''\"a\"=$2, \"b\"=$1'' = [2, 1]
   \<and> placeholders ''\"a\"=$2, \"b\"=$1'' \<noteq> [1..<Suc (length [JNum (Fin 1)])]"
  by (simp add: sqlForPartialUpdate_def cols_of_def Object_keys_def Object_values_def
      js_or_def name_map_read_def Object_prototype_def dec_small is_digit_def read_nat_def digit_val_def)

text \<open>
  C2 (amended). For a non-empty update of \<open>n\<close> entries and a name map such that no
  column name, once resolved, holds the separator \<^verbatim>\<open>, \<close> or a placeholder of its own,
  \<^verbatim>\<open>sqlForPartialUpdate\<close> returns a clause that is its comma-separated parts joined with
  \<^verbatim>\<open>, \<close>, and these parts are exactly \<open>n\<close> assignments: the part at index \<open>i\<close> is the
  assignment of the key at index \<open>i\<close> of the update, the quoted column, \<^verbatim>\<open>=$\<close> and the
  decimal text of \<open>i + 1\<close>, and holds the one placeholder \<open>i + 1\<close>. The clause as a
  whole references \<^verbatim>\<open>$1\<close> to \<^verbatim>\<open>$n\<close> in increasing order. The values are the \<open>n\<close>
  values of the update in the order of the keys, the value at index \<open>i\<close> for the
  placeholder \<open>i + 1\<close>.
\<close>

theorem C2_assignments_in_key_order:
  assumes "dataToUpdate \<noteq> []"
    and "\<forall>k \<in> set (Object_keys dataToUpdate).
           \<not> contains_text '', '' (js_or (name_map_read jsToSql k) k)
           \<and> placeholders (js_or (name_map_read jsToSql k) k) = []"
  shows "\<exists>r. (sqlForPartialUpdate dataToUpdate jsToSql :: 'e error + partialUpdate) = Inr r
    \<and> setCols r = join '', '' (pieces [] (setCols r))
    \<and> length (pieces [] (setCols r)) = length dataToUpdate
    \<and> (\<forall>i < length dataToUpdate.
          pieces [] (setCols r) ! i
            = ''\"'' @ js_or (name_map_read jsToSql (fst (dataToUpdate ! i))) (fst (dataToUpdate ! i))
                @ ''\"=$'' @ dec (i + 1)
          \<and> placeholders (pieces [] (setCols r) ! i) = [i + 1])
    \<and> placeholders (setCols r) = [1..<Suc (length dataToUpdate)]
    \<and> length (values' r) = length dataToUpdate
    \<and> (\<forall>i < length dataToUpdate. values' r ! i = snd (dataToUpdate ! i))"
proof -
  let ?keys = "Object_keys dataToUpdate"
  let ?cols = "cols_of ?keys jsToSql"
  let ?r = "\<lparr>setCols = join '', '' ?cols, values' = Object_values dataToUpdate\<rparr>"
  have run: "(sqlForPartialUpdate dataToUpdate jsToSql :: 'e error + partialUpdate) = Inr ?r"
    using assms(1) by (rule sqlForPartialUpdate_Inr)
  have keys: "?keys \<noteq> []" "length ?keys = length dataToUpdate"
    using assms(1) by (simp_all add: Object_keys_def)
  have parts: "pieces [] (setCols ?r) = ?cols"
    using pieces_setCols [OF keys(1), of jsToSql] assms(2) by simp
  have len: "length (pieces [] (setCols ?r)) = length dataToUpdate"
    by (simp only: parts cols_of_length keys(2))
  have each: "\<forall>i < length dataToUpdate.
          pieces [] (setCols ?r) ! i
            = ''\"'' @ js_or (name_map_read jsToSql (fst (dataToUpdate ! i))) (fst (dataToUpdate ! i))
                @ ''\"=$'' @ dec (i + 1)
          \<and> placeholders (pieces [] (setCols ?r) ! i) = [i + 1]"
  proof (intro allI impI)
    fix i assume i: "i < length dataToUpdate"
    then have k: "?keys ! i = fst (dataToUpdate ! i)" "?keys ! i \<in> set ?keys"
      by (simp_all add: Object_keys_def)
    have col: "?cols ! i
        = ''\"'' @ js_or (name_map_read jsToSql (fst (dataToUpdate ! i))) (fst (dataToUpdate ! i))
                @ ''\"=$'' @ dec (i + 1)"
      using i cols_of_nth [of i ?keys jsToSql] by (simp add: keys(2) k(1))
    have "placeholders (js_or (name_map_read jsToSql (fst (dataToUpdate ! i))) (fst (dataToUpdate ! i))) = []"
      using assms(2) k by auto
    then have "placeholders (?cols ! i) = [i + 1]"
      unfolding col by (rule placeholders_assignment)
    with col show "pieces [] (setCols ?r) ! i
            = ''\"'' @ js_or (name_map_read jsToSql (fst (dataToUpdate ! i))) (fst (dataToUpdate ! i))
                @ ''\"=$'' @ dec (i + 1)
          \<and> placeholders (pieces [] (setCols ?r) ! i) = [i + 1]"
      by (simp only: parts)
  qed
  have marks: "placeholders (setCols ?r) = [1..<Suc (length dataToUpdate)]"
    using sqlForPartialUpdate_placeholders [OF run] assms(2)
    by (simp add: Object_values_def)
  have joined: "setCols ?r = join '', '' (pieces [] (setCols ?r))"
    using parts by simp
  have vals: "length (values' ?r) = length dataToUpdate"
    "\<forall>i < length dataToUpdate. values' ?r ! i = snd (dataToUpdate ! i)"
    by (simp_all add: Object_values_def)
  from run joined len each marks vals show ?thesis
    by (intro exI [of _ ?r] conjI)
qed

text \<open>The update of the repository's own test of \<^verbatim>\<open>sqlForPartialUpdate\<close>.\<close>

theorem C2_assignments_in_key_order_witness:
  "\<exists>r. sqlForPartialUpdate
          [(''firstName'', JStr ''newFirstName''), (''age'', JStr ''newAge''),
           (''description'', JStr ''newDescription'')]
          [''firstName'' \<mapsto> ''first_name'']
        = (Inr r :: unit error + partialUpdate)
    \<and> setCols r = ''\"first_name\"=$1, \"age\"=$2, \"description\"=$3''
    \<and> length (pieces [] (setCols r)) = 3
    \<and> pieces [] (setCols r) ! 0 = ''\"first_name\"=$1''
    \<and> pieces [] (setCols r) ! 1 = ''\"age\"=$2''
    \<and> pieces [] (setCols r) ! 2 = ''\"description\"=$3''
    \<and> placeholders (setCols r) = [1, 2, 3]
    \<and> length (values' r) = 3
    \<and> values' r ! 0 = JStr ''newFirstName''
    \<and> values' r ! 1 = JStr ''newAge''
    \<and> values' r ! 2 = JStr ''newDescription''"
proof -
  let ?d = "[(''firstName'', JStr ''newFirstName''), (''age'', JStr ''newAge''),
           (''description'', JStr ''newDescription'')]"
  let ?m = "[''firstName'' \<mapsto> ''first_name'']"
  have ne: "?d \<noteq> []" by simp
  have names: "\<forall>k \<in> set (Object_keys ?d).
           \<not> contains_text '', '' (js_or (name_map_read ?m k) k)
           \<and> placeholders (js_or (name_map_read ?m k) k) = []"
    by (simp add: Object_keys_def js_or_def name_map_read_def Object_prototype_def)
  from C2_assignments_in_key_order [OF ne names, where ?'e = unit]
  obtain r where r: "sqlForPartialUpdate ?d ?m = (Inr r :: unit error + partialUpdate)"
    and len: "length (pieces [] (setCols r)) = length ?d"
    and each: "\<forall>i < length ?d.
          pieces [] (setCols r) ! i
            = ''\"'' @ js_or (name_map_read ?m (fst (?d ! i))) (fst (?d ! i)) @ ''\"=$'' @ dec (i + 1)
          \<and> placeholders (pieces [] (setCols r) ! i) = [i + 1]"
    and marks: "placeholders (setCols r) = [1..<Suc (length ?d)]"
    and vlen: "length (values' r) = length ?d"
    and vals: "\<forall>i < length ?d. values' r ! i = snd (?d ! i)"
    by blast
  from r have clause: "setCols r = ''\"first_name\"=$1, \"age\"=$2, \"description\"=$3''"
    by (auto simp: sqlForPartialUpdate_def cols_of_def Object_keys_def Object_values_def
        js_or_def name_map_read_def Object_prototype_def dec_small)
  from each have parts: "pieces [] (setCols r) ! 0 = ''\"first_name\"=$1''"
    "pieces [] (setCols r) ! 1 = ''\"age\"=$2''"
    "pieces [] (setCols r) ! 2 = ''\"description\"=$3''"
    by (simp_all add: js_or_def name_map_read_def Object_prototype_def dec_small)
  from len have len3: "length (pieces [] (setCols r)) = 3" by simp
  have up: "[1..<Suc 3] = [1, 2, 3]" by (simp add: upt_rec)
  from marks have m3: "placeholders (setCols r) = [1, 2, 3]" by (simp add: up)
  from vlen have "length (values' r) = 3" by simp
  moreover from vals have "values' r ! 0 = JStr ''newFirstName''" by auto
  moreover from vals have "values' r ! 1 = JStr ''newAge''" by auto
  moreover from vals have "values' r ! 2 = JStr ''newDescription''" by auto
  ultimately show ?thesis using r clause len3 parts m3 by blast
qed

text \<open>
  Without the condition the claim fails: the update with the one key \<^verbatim>\<open>x"=$1, "y\<close>
  gives a clause of two comma-separated assignments, both with the placeholder
  \<^verbatim>\<open>$1\<close>, for one value.
\<close>

theorem C2_assignments_in_key_order_counterexample:
  "sqlForPartialUpdate [(''x\"=$1, \"y'', JNum (Fin 7))] Map.empty
      = (Inr \<lparr>setCols = ''\"x\"=$1, \"y\"=$1'', values' = [JNum (Fin 7)]\<rparr>
          :: unit error + partialUpdate)
   \<and> pieces [] ''\"x\"=$1, \"y\"=$1'' = [''\"x\"=$1'', ''\"y\"=$1'']
   \<and> length (pieces [] ''\"x\"=$1, \"y\"=$1'') \<noteq> length [(''x\"=$1, \"y'', JNum (Fin 7))]
   \<and> placeholders ''\"x\"=$1, \"y\"=$1'' = [1, 1]"
  by (simp add: sqlForPartialUpdate_def cols_of_def Object_keys_def Object_values_def
      js_or_def name_map_read_def Object_prototype_def dec_small is_digit_def read_nat_def
      digit_val_def)

text \<open>
  C3. With an empty update \<^verbatim>\<open>sqlForPartialUpdate\<close> fails with the
  \<^verbatim>\<open>BadRequestError\<close> "No data", whatever the name map, and returns no clause and no
  values; with a non-empty update it returns a result and raises nothing.
\<close>

theorem C3_no_data:
  "(dataToUpdate = [] \<longrightarrow>
      (sqlForPartialUpdate dataToUpdate jsToSql :: 'e error + partialUpdate)
        = Inl (BadRequestError (Msg ''No data'')))
   \<and> (dataToUpdate \<noteq> [] \<longrightarrow>
      (\<exists>r. (sqlForPartialUpdate dataToUpdate jsToSql :: 'e error + partialUpdate) = Inr r))"
  by (simp add: sqlForPartialUpdate_Inl sqlForPartialUpdate_Inr)

text \<open>An empty and a non-empty update.\<close>

theorem C3_no_data_witness:
  "(sqlForPartialUpdate [] [''firstName'' \<mapsto> ''first_name''] :: unit error + partialUpdate)
      = Inl (BadRequestError (Msg ''No data''))
   \<and> (\<exists>r. (sqlForPartialUpdate [(''age'', JNum (Fin 32))] [''firstName'' \<mapsto> ''first_name'']
          :: unit error + partialUpdate) = Inr r)"
  using C3_no_data [of "[]" "[''firstName'' \<mapsto> ''first_name'']", where ?'e = unit]
    C3_no_data [of "[(''age'', JNum (Fin 32))]" "[''firstName'' \<mapsto> ''first_name'']",
      where ?'e = unit]
  by simp

text \<open>
  C4 (amended). The column of the key \<open>k\<close> at index \<open>i\<close> of a non-empty update: when
  the name map holds a non-empty name for \<open>k\<close>, that name; when the name map holds the
  empty string for \<open>k\<close>, or holds nothing for \<open>k\<close> and \<open>k\<close> is not the name of a member
  inherited from \<^verbatim>\<open>Object.prototype\<close>, the key \<open>k\<close> itself. The code reads
  \<^verbatim>\<open>jsToSql[colName] || colName\<close>, and the empty string is falsy. The clause is these
  assignments joined, and when no resolved column name holds the separator \<^verbatim>\<open>, \<close> the
  assignment of \<open>k\<close> is the part at index \<open>i\<close> of the clause.
\<close>

theorem C4_column_name_resolution:
  assumes "i < length dataToUpdate" and "k = Object_keys dataToUpdate ! i"
  shows "(\<exists>r. (sqlForPartialUpdate dataToUpdate jsToSql :: 'e error + partialUpdate) = Inr r
            \<and> setCols r = join '', '' (cols_of (Object_keys dataToUpdate) jsToSql)
            \<and> ((\<forall>k' \<in> set (Object_keys dataToUpdate).
                   \<not> contains_text '', '' (js_or (name_map_read jsToSql k') k')) \<longrightarrow>
                 pieces [] (setCols r) ! i = cols_of (Object_keys dataToUpdate) jsToSql ! i))
    \<and> (\<forall>p. jsToSql k = Some p \<and> p \<noteq> [] \<longrightarrow>
          cols_of (Object_keys dataToUpdate) jsToSql ! i = ''\"'' @ p @ ''\"=$'' @ dec (i + 1))
    \<and> ((jsToSql k = None \<and> Object_prototype k = None) \<or> jsToSql k = Some [] \<longrightarrow>
          cols_of (Object_keys dataToUpdate) jsToSql ! i = ''\"'' @ k @ ''\"=$'' @ dec (i + 1))"
proof -
  let ?keys = "Object_keys dataToUpdate"
  let ?r = "\<lparr>setCols = join '', '' (cols_of ?keys jsToSql), values' = Object_values dataToUpdate\<rparr>"
  from assms(1) have ne: "dataToUpdate \<noteq> []" by auto
  from assms(1) have i: "i < length ?keys" and keys: "?keys \<noteq> []"
    by (auto simp: Object_keys_def)
  have run: "(sqlForPartialUpdate dataToUpdate jsToSql :: 'e error + partialUpdate) = Inr ?r"
    using ne by (rule sqlForPartialUpdate_Inr)
  have parts: "(\<forall>k' \<in> set ?keys. \<not> contains_text '', '' (js_or (name_map_read jsToSql k') k')) \<longrightarrow>
                 pieces [] (setCols ?r) ! i = cols_of ?keys jsToSql ! i"
    using pieces_setCols [OF keys, of jsToSql] by simp
  from run parts have clause: "\<exists>r. (sqlForPartialUpdate dataToUpdate jsToSql :: 'e error + partialUpdate) = Inr r
            \<and> setCols r = join '', '' (cols_of ?keys jsToSql)
            \<and> ((\<forall>k' \<in> set ?keys. \<not> contains_text '', '' (js_or (name_map_read jsToSql k') k')) \<longrightarrow>
                 pieces [] (setCols r) ! i = cols_of ?keys jsToSql ! i)"
    by (intro exI [of _ ?r]) simp
  have mapped: "\<forall>p. jsToSql k = Some p \<and> p \<noteq> [] \<longrightarrow>
          cols_of ?keys jsToSql ! i = ''\"'' @ p @ ''\"=$'' @ dec (i + 1)"
    using i assms(2) by (simp add: cols_of_nth js_or_def name_map_read_def)
  have verbatim: "(jsToSql k = None \<and> Object_prototype k = None) \<or> jsToSql k = Some [] \<longrightarrow>
          cols_of ?keys jsToSql ! i = ''\"'' @ k @ ''\"=$'' @ dec (i + 1)"
    using i assms(2) by (auto simp: cols_of_nth js_or_def name_map_read_def)
  from clause mapped verbatim show ?thesis by (intro conjI)
qed

text \<open>A mapped key, an unmapped key, and a key mapped to the empty string.\<close>

theorem C4_column_name_resolution_witness:
  "cols_of (Object_keys [(''firstName'', JStr ''Aliya''), (''age'', JNum (Fin 32))])
       [''firstName'' \<mapsto> ''first_name''] ! 0 = ''\"first_name\"=$1''
   \<and> cols_of (Object_keys [(''firstName'', JStr ''Aliya''), (''age'', JNum (Fin 32))])
       [''firstName'' \<mapsto> ''first_name''] ! 1 = ''\"age\"=$2''
   \<and> cols_of (Object_keys [(''firstName'', JStr ''Aliya''), (''age'', JNum (Fin 32))])
       [''firstName'' \<mapsto> ''first_name'', ''age'' \<mapsto> ''''] ! 1 = ''\"age\"=$2''
   \<and> (\<exists>r. sqlForPartialUpdate [(''firstName'', JStr ''Aliya''), (''age'', JNum (Fin 32))]
              [''firstName'' \<mapsto> ''first_name''] = (Inr r :: unit error + partialUpdate)
          \<and> pieces [] (setCols r) ! 0 = ''\"first_name\"=$1'')"
proof -
  let ?d = "[(''firstName'', JStr ''Aliya''), (''age'', JNum (Fin 32))]"
  let ?m = "[''firstName'' \<mapsto> ''first_name'']"
  let ?m' = "[''firstName'' \<mapsto> ''first_name'', ''age'' \<mapsto> '''']"
  have k0: "''firstName'' = Object_keys ?d ! 0" and k1: "''age'' = Object_keys ?d ! 1"
    by (simp_all add: Object_keys_def)
  have i0: "0 < length ?d" and i1: "1 < length ?d" by simp_all
  have own: "Object_prototype ''age'' = None" by (simp add: Object_prototype_def)
  have names: "\<forall>k' \<in> set (Object_keys ?d). \<not> contains_text '', '' (js_or (name_map_read ?m k') k')"
    by (simp add: Object_keys_def js_or_def name_map_read_def Object_prototype_def)
  note first = C4_column_name_resolution [OF i0 k0, of ?m, where ?'e = unit]
  from first have a: "cols_of (Object_keys ?d) ?m ! 0 = ''\"first_name\"=$1''"
    by (simp add: dec_small)
  from C4_column_name_resolution [OF i1 k1, of ?m, where ?'e = unit] own
  have b: "cols_of (Object_keys ?d) ?m ! 1 = ''\"age\"=$2''"
    by (simp add: dec_small)
  from C4_column_name_resolution [OF i1 k1, of ?m', where ?'e = unit]
  have c: "cols_of (Object_keys ?d) ?m' ! 1 = ''\"age\"=$2''"
    by (simp add: dec_small)
  from first names obtain r where
    "sqlForPartialUpdate ?d ?m = (Inr r :: unit error + partialUpdate)"
    "pieces [] (setCols r) ! 0 = cols_of (Object_keys ?d) ?m ! 0"
    by blast
  with a have d: "\<exists>r. sqlForPartialUpdate ?d ?m = (Inr r :: unit error + partialUpdate)
          \<and> pieces [] (setCols r) ! 0 = ''\"first_name\"=$1''"
    by auto
  from a b c d show ?thesis by (intro conjI)
qed

text \<open>
  The claim as written (a key present in the name map takes the mapped name) fails for
  a key mapped to the empty string: the column is the key, not the mapped name.
\<close>

theorem C4_column_name_resolution_counterexample:
  "[''a'' \<mapsto> ''''] ''a'' = Some ''''
   \<and> sqlForPartialUpdate [(''a'', JNum (Fin 1))] [''a'' \<mapsto> '''']
       = (Inr \<lparr>setCols = ''\"a\"=$1'', values' = [JNum (Fin 1)]\<rparr> :: unit error + partialUpdate)
   \<and> ''\"a\"=$1'' \<noteq> ''\"\"=$1''"
  by (simp add: sqlForPartialUpdate_def cols_of_def Object_keys_def Object_values_def
      js_or_def name_map_read_def Object_prototype_def dec_small)

text \<open>
  C5. The example of the documentation: the update \<^verbatim>\<open>{firstName: "Aliya", age: 32}\<close>
  with the name map \<^verbatim>\<open>{firstName: "first_name"}\<close> gives the clause
  \<^verbatim>\<open>"first_name"=$1, "age"=$2\<close>, each column in double quotes, and the values
  \<^verbatim>\<open>["Aliya", 32]\<close>.
\<close>

theorem C5_documented_example:
  "sqlForPartialUpdate [(''firstName'', JStr ''Aliya''), (''age'', JNum (Fin 32))]
      [''firstName'' \<mapsto> ''first_name'']
     = Inr \<lparr>setCols = ''\"first_name\"=$1, \"age\"=$2'',
            values' = [JStr ''Aliya'', JNum (Fin 32)]\<rparr>"
  by (simp add: sqlForPartialUpdate_def cols_of_def Object_keys_def Object_values_def
      js_or_def name_map_read_def Object_prototype_def dec_small)

text \<open>
  C6. For every request the predicates and values of \<^verbatim>\<open>Company.findAll\<close> are those of
  the rules name, minEmployees, maxEmployees taken in this declared order, a rule
  emitting its predicate when its key is present; those of \<^verbatim>\<open>Job.findAll\<close> are those of
  the rules title, minSalary, hasEquity in this order (without the last one when
  hasEquity is present with a value other than true). The predicates are joined with
  \<^verbatim>\<open> AND \<close>. Two objects with the same properties in different orders give the same
  predicates and values. For \<^verbatim>\<open>{minEmployees: 10, maxEmployees: 50}\<close>, in either order
  of the keys, the clause is the minimum predicate, then the maximum predicate, and the
  values are 10, 50.
\<close>

theorem C6_declared_order:
  "Company_whereConditions queries = spec_buildFilter queries spec_company_rules ([], [])
   \<and> map rule_key spec_company_rules = [''name'', ''minEmployees'', ''maxEmployees'']
   \<and> Job_clauseStatements queries =
       spec_buildFilter queries
         (if has_key ''hasEquity'' queries \<and> get_prop queries ''hasEquity'' \<noteq> JBool True
          then take 2 spec_job_rules else spec_job_rules) ([], [])
   \<and> map rule_key spec_job_rules = [''title'', ''minSalary'', ''hasEquity'']
   \<and> whereClause (fst (Company_whereConditions queries)) =
       (if fst (Company_whereConditions queries) = [] then []
        else ''WHERE '' @ join '' AND '' (fst (Company_whereConditions queries)))
   \<and> whereClause (fst (Job_clauseStatements queries)) =
       (if fst (Job_clauseStatements queries) = [] then []
        else ''WHERE '' @ join '' AND '' (fst (Job_clauseStatements queries)))
   \<and> (distinct (map fst queries) \<and> distinct (map fst queries') \<and> set queries = set queries' \<longrightarrow>
        Company_whereConditions queries = Company_whereConditions queries'
        \<and> Job_clauseStatements queries = Job_clauseStatements queries')
   \<and> Company_whereConditions [(''minEmployees'', JNum (Fin 10)), (''maxEmployees'', JNum (Fin 50))]
       = ([''num_employees >= $1'', ''num_employees <= $2''], [JNum (Fin 10), JNum (Fin 50)])
   \<and> Company_whereConditions [(''maxEmployees'', JNum (Fin 50)), (''minEmployees'', JNum (Fin 10))]
       = ([''num_employees >= $1'', ''num_employees <= $2''], [JNum (Fin 10), JNum (Fin 50)])
   \<and> whereClause [''num_employees >= $1'', ''num_employees <= $2'']
       = ''WHERE num_employees >= $1 AND num_employees <= $2''"
proof -
  have order: "distinct (map fst queries) \<and> distinct (map fst queries') \<and> set queries = set queries' \<longrightarrow>
        Company_whereConditions queries = Company_whereConditions queries'
        \<and> Job_clauseStatements queries = Job_clauseStatements queries'"
  proof (intro impI, elim conjE)
    assume d: "distinct (map fst queries)" "distinct (map fst queries')" "set queries = set queries'"
    show "Company_whereConditions queries = Company_whereConditions queries'
        \<and> Job_clauseStatements queries = Job_clauseStatements queries'"
      unfolding Company_whereConditions_def Job_clauseStatements_def
      by (simp only: same_properties [OF d])
  qed
  have keys: "map rule_key spec_company_rules = [''name'', ''minEmployees'', ''maxEmployees'']"
    "map rule_key spec_job_rules = [''title'', ''minSalary'', ''hasEquity'']"
    by (simp_all add: spec_company_rules_def spec_job_rules_def)
  have ex: "Company_whereConditions [(''minEmployees'', JNum (Fin 10)), (''maxEmployees'', JNum (Fin 50))]
       = ([''num_employees >= $1'', ''num_employees <= $2''], [JNum (Fin 10), JNum (Fin 50)])"
    "Company_whereConditions [(''maxEmployees'', JNum (Fin 50)), (''minEmployees'', JNum (Fin 10))]
       = ([''num_employees >= $1'', ''num_employees <= $2''], [JNum (Fin 10), JNum (Fin 50)])"
    "whereClause [''num_employees >= $1'', ''num_employees <= $2'']
       = ''WHERE num_employees >= $1 AND num_employees <= $2''"
    by (simp_all add: Company_whereConditions_def has_key_def get_prop_def dec_small whereClause_def)
  show ?thesis
    using Company_refines_spec [of queries] Job_refines_spec [of queries] keys order ex
      whereClause_join [of "fst (Company_whereConditions queries)"]
      whereClause_join [of "fst (Job_clauseStatements queries)"]
    by (intro conjI) 
qed

text \<open>Two orders of the same three properties.\<close>

theorem C6_declared_order_witness:
  "Company_whereConditions [(''title'', JStr ''dev''), (''maxEmployees'', JNum (Fin 50)),
                            (''minEmployees'', JNum (Fin 10))]
     = Company_whereConditions [(''minEmployees'', JNum (Fin 10)),
                                (''maxEmployees'', JNum (Fin 50)), (''title'', JStr ''dev'')]
   \<and> Job_clauseStatements [(''title'', JStr ''dev''), (''maxEmployees'', JNum (Fin 50)),
                           (''minEmployees'', JNum (Fin 10))]
     = Job_clauseStatements [(''minEmployees'', JNum (Fin 10)),
                             (''maxEmployees'', JNum (Fin 50)), (''title'', JStr ''dev'')]
   \<and> Company_whereConditions [(''title'', JStr ''dev''), (''maxEmployees'', JNum (Fin 50)),
                              (''minEmployees'', JNum (Fin 10))]
     = ([''num_employees >= $1'', ''num_employees <= $2''], [JNum (Fin 10), JNum (Fin 50)])"
proof -
  let ?q = "[(''title'', JStr ''dev''), (''maxEmployees'', JNum (Fin 50)),
            (''minEmployees'', JNum (Fin 10))]"
  let ?q' = "[(''minEmployees'', JNum (Fin 10)), (''maxEmployees'', JNum (Fin 50)),
             (''title'', JStr ''dev'')]"
  have h: "distinct (map fst ?q) \<and> distinct (map fst ?q') \<and> set ?q = set ?q'"
    by auto
  from C6_declared_order [of ?q ?q'] h
  have same: "Company_whereConditions ?q = Company_whereConditions ?q'"
    "Job_clauseStatements ?q = Job_clauseStatements ?q'"
    by blast+
  from C6_declared_order [of ?q ?q']
  have "Company_whereConditions ?q = spec_buildFilter ?q spec_company_rules ([], [])"
    by blast
  then have "Company_whereConditions ?q
     = ([''num_employees >= $1'', ''num_employees <= $2''], [JNum (Fin 10), JNum (Fin 50)])"
    by (simp add: spec_company_rules_def has_key_def get_prop_def dec_small)
  with same show ?thesis by blast
qed

text \<open>
  C7 (amended). When hasEquity is present and is the boolean true, \<^verbatim>\<open>Job.findAll\<close>
  emits, after the predicates of title and minSalary, the predicate \<^verbatim>\<open>equity > $k\<close> at
  the next position and binds the number 0 to it, not the value of hasEquity. When
  hasEquity is present with any other value, the predicates and values are those of the
  request without hasEquity. For \<^verbatim>\<open>{hasEquity: true}\<close> there is the one predicate
  \<^verbatim>\<open>equity > $1\<close> and the values are \<^verbatim>\<open>[0]\<close>.
\<close>

theorem C7_equity_predicate:
  "(has_key ''hasEquity'' queries \<and> get_prop queries ''hasEquity'' = JBool True \<longrightarrow>
      (\<exists>preds vals.
         Job_clauseStatements (AList.delete ''hasEquity'' queries) = (preds, vals)
         \<and> Job_clauseStatements queries
             = (preds @ [''equity > $'' @ dec (length vals + 1)], vals @ [JNum (Fin 0)])))
   \<and> (has_key ''hasEquity'' queries \<and> get_prop queries ''hasEquity'' \<noteq> JBool True \<longrightarrow>
        Job_clauseStatements queries = Job_clauseStatements (AList.delete ''hasEquity'' queries))
   \<and> Job_clauseStatements [(''hasEquity'', JBool True)] = ([''equity > $1''], [JNum (Fin 0)])
   \<and> whereClause [''equity > $1''] = ''WHERE equity > $1''"
proof -
  have a: "has_key ''hasEquity'' queries \<and> get_prop queries ''hasEquity'' = JBool True \<longrightarrow>
      (\<exists>preds vals.
         Job_clauseStatements (AList.delete ''hasEquity'' queries) = (preds, vals)
         \<and> Job_clauseStatements queries
             = (preds @ [''equity > $'' @ dec (length vals + 1)], vals @ [JNum (Fin 0)]))"
    by (simp add: Job_clauseStatements_def has_key_delete get_prop_delete)
  have b: "has_key ''hasEquity'' queries \<and> get_prop queries ''hasEquity'' \<noteq> JBool True \<longrightarrow>
        Job_clauseStatements queries = Job_clauseStatements (AList.delete ''hasEquity'' queries)"
    by (simp add: Job_clauseStatements_def has_key_delete get_prop_delete)
  have c: "Job_clauseStatements [(''hasEquity'', JBool True)] = ([''equity > $1''], [JNum (Fin 0)])"
    "whereClause [''equity > $1''] = ''WHERE equity > $1''"
    by (simp_all add: Job_clauseStatements_def has_key_def get_prop_def dec_small whereClause_def)
  from a b c show ?thesis by (intro conjI)
qed

text \<open>
  The claim as written (hasEquity present is enough) fails for
  \<^verbatim>\<open>{hasEquity: false}\<close>: no predicate is emitted and nothing is bound.
\<close>

theorem C7_equity_predicate_counterexample:
  "has_key ''hasEquity'' [(''hasEquity'', JBool False)]
   \<and> Job_clauseStatements [(''hasEquity'', JBool False)] = ([], [])
   \<and> whereClause (fst (Job_clauseStatements [(''hasEquity'', JBool False)])) = []"
  by (simp add: Job_clauseStatements_def has_key_def get_prop_def whereClause_def)

text \<open>A title with hasEquity true, and with hasEquity a string.\<close>

theorem C7_equity_predicate_witness:
  "Job_clauseStatements [(''title'', JStr ''dev''), (''hasEquity'', JBool True)]
     = ([''title ILIKE '%' || $1 || '%'' @ [CHR 0x27], ''equity > $2''], [JStr ''dev'', JNum (Fin 0)])
   \<and> Job_clauseStatements [(''title'', JStr ''dev''), (''hasEquity'', JStr ''yes'')]
     = ([''title ILIKE '%' || $1 || '%'' @ [CHR 0x27]], [JStr ''dev''])"
proof -
  let ?q = "[(''title'', JStr ''dev''), (''hasEquity'', JBool True)]"
  let ?q' = "[(''title'', JStr ''dev''), (''hasEquity'', JStr ''yes'')]"
  have del: "AList.delete ''hasEquity'' ?q = [(''title'', JStr ''dev'')]"
    "AList.delete ''hasEquity'' ?q' = [(''title'', JStr ''dev'')]"
    by (simp_all add: AList.delete_eq)
  have base: "Job_clauseStatements [(''title'', JStr ''dev'')]
      = ([''title ILIKE '%' || $1 || '%'' @ [CHR 0x27]], [JStr ''dev''])"
    by (simp add: Job_clauseStatements_def has_key_def get_prop_def dec_small)
  have h: "has_key ''hasEquity'' ?q \<and> get_prop ?q ''hasEquity'' = JBool True"
    by (simp add: has_key_def get_prop_def)
  have h': "has_key ''hasEquity'' ?q' \<and> get_prop ?q' ''hasEquity'' \<noteq> JBool True"
    by (simp add: has_key_def get_prop_def)
  from C7_equity_predicate [of ?q] h
  obtain preds vals where
    "Job_clauseStatements (AList.delete ''hasEquity'' ?q) = (preds, vals)"
    "Job_clauseStatements ?q = (preds @ [''equity > $'' @ dec (length vals + 1)], vals @ [JNum (Fin 0)])"
    by blast
  then have a: "Job_clauseStatements ?q
     = ([''title ILIKE '%' || $1 || '%'' @ [CHR 0x27], ''equity > $2''], [JStr ''dev'', JNum (Fin 0)])"
    by (auto simp: del base dec_small)
  from C7_equity_predicate [of ?q'] h'
  have "Job_clauseStatements ?q' = Job_clauseStatements (AList.delete ''hasEquity'' ?q')"
    by blast
  then have b: "Job_clauseStatements ?q' = ([''title ILIKE '%' || $1 || '%'' @ [CHR 0x27]], [JStr ''dev''])"
    by (simp only: del base)
  from a b show ?thesis by blast
qed

text \<open>
  C8. Building the filter never fails. \<^verbatim>\<open>Job.findAll\<close> sends its one query for every
  request and never raises a \<^verbatim>\<open>BadRequestError\<close>; so does \<^verbatim>\<open>Company.findAll\<close> for
  every request that passes the range check at its head, which is the only place where
  it raises one. When no rule matches (none of name, minEmployees, maxEmployees present;
  none of title, minSalary present and hasEquity not present as true), which includes
  the empty request and requests with unknown keys only, there are no predicates and no
  values, the clause is the empty string, and the statement sent does not contain the
  word WHERE.
\<close>

theorem C8_builder_never_fails:
  "sent (Job_findAll db queries)
     = [(Job_sql (whereClause (fst (Job_clauseStatements queries))),
         snd (Job_clauseStatements queries))]
   \<and> (\<forall>m. outcome (Job_findAll db queries) \<noteq> Inl (BadRequestError m))
   \<and> (\<not> js_gt (Number str2num (get_prop queries ''minEmployees''))
              (Number str2num (get_prop queries ''maxEmployees'')) \<longrightarrow>
        sent (Company_findAll str2num db queries)
          = [(Company_sql (whereClause (fst (Company_whereConditions queries))),
              snd (Company_whereConditions queries))]
        \<and> (\<forall>m. outcome (Company_findAll str2num db queries) \<noteq> Inl (BadRequestError m)))
   \<and> (\<not> has_key ''name'' queries \<and> \<not> has_key ''minEmployees'' queries
        \<and> \<not> has_key ''maxEmployees'' queries \<longrightarrow>
        Company_whereConditions queries = ([], [])
        \<and> whereClause (fst (Company_whereConditions queries)) = []
        \<and> \<not> contains_text ''WHERE''
              (Company_sql (whereClause (fst (Company_whereConditions queries))))
        \<and> sent (Company_findAll str2num db queries) = [(Company_sql [], [])])
   \<and> (\<not> has_key ''title'' queries \<and> \<not> has_key ''minSalary'' queries
        \<and> \<not> (has_key ''hasEquity'' queries \<and> get_prop queries ''hasEquity'' = JBool True) \<longrightarrow>
        Job_clauseStatements queries = ([], [])
        \<and> whereClause (fst (Job_clauseStatements queries)) = []
        \<and> \<not> contains_text ''WHERE''
              (Job_sql (whereClause (fst (Job_clauseStatements queries))))
        \<and> sent (Job_findAll db queries) = [(Job_sql [], [])])"
proof -
  have job: "sent (Job_findAll db queries)
     = [(Job_sql (whereClause (fst (Job_clauseStatements queries))),
         snd (Job_clauseStatements queries))]"
    "\<forall>m. outcome (Job_findAll db queries) \<noteq> Inl (BadRequestError m)"
    by (simp_all add: Job_findAll_eq sent_db_query outcome_db_query)
  have company: "\<not> js_gt (Number str2num (get_prop queries ''minEmployees''))
              (Number str2num (get_prop queries ''maxEmployees'')) \<longrightarrow>
        sent (Company_findAll str2num db queries)
          = [(Company_sql (whereClause (fst (Company_whereConditions queries))),
              snd (Company_whereConditions queries))]
        \<and> (\<forall>m. outcome (Company_findAll str2num db queries) \<noteq> Inl (BadRequestError m))"
    by (simp add: Company_findAll_pass sent_db_query outcome_db_query)
  have company_none: "\<not> has_key ''name'' queries \<and> \<not> has_key ''minEmployees'' queries
        \<and> \<not> has_key ''maxEmployees'' queries \<longrightarrow>
        Company_whereConditions queries = ([], [])
        \<and> whereClause (fst (Company_whereConditions queries)) = []
        \<and> \<not> contains_text ''WHERE''
              (Company_sql (whereClause (fst (Company_whereConditions queries))))
        \<and> sent (Company_findAll str2num db queries) = [(Company_sql [], [])]"
  proof (intro impI, elim conjE)
    assume h: "\<not> has_key ''name'' queries" "\<not> has_key ''minEmployees'' queries"
      "\<not> has_key ''maxEmployees'' queries"
    then have none: "Company_whereConditions queries = ([], [])"
      by (simp add: Company_whereConditions_def)
    have pass: "\<not> js_gt (Number str2num (get_prop queries ''minEmployees''))
              (Number str2num (get_prop queries ''maxEmployees''))"
      using h by (simp add: absent_undefined)
    show "Company_whereConditions queries = ([], [])
        \<and> whereClause (fst (Company_whereConditions queries)) = []
        \<and> \<not> contains_text ''WHERE''
              (Company_sql (whereClause (fst (Company_whereConditions queries))))
        \<and> sent (Company_findAll str2num db queries) = [(Company_sql [], [])]"
      using Company_sql_no_where
      by (simp add: none whereClause_def Company_findAll_pass [OF pass] sent_db_query)
  qed
  have job_none: "\<not> has_key ''title'' queries \<and> \<not> has_key ''minSalary'' queries
        \<and> \<not> (has_key ''hasEquity'' queries \<and> get_prop queries ''hasEquity'' = JBool True) \<longrightarrow>
        Job_clauseStatements queries = ([], [])
        \<and> whereClause (fst (Job_clauseStatements queries)) = []
        \<and> \<not> contains_text ''WHERE''
              (Job_sql (whereClause (fst (Job_clauseStatements queries))))
        \<and> sent (Job_findAll db queries) = [(Job_sql [], [])]"
  proof (intro impI, elim conjE)
    assume h: "\<not> has_key ''title'' queries" "\<not> has_key ''minSalary'' queries"
      "\<not> (has_key ''hasEquity'' queries \<and> get_prop queries ''hasEquity'' = JBool True)"
    then have none: "Job_clauseStatements queries = ([], [])"
      by (simp add: Job_clauseStatements_def)
    show "Job_clauseStatements queries = ([], [])
        \<and> whereClause (fst (Job_clauseStatements queries)) = []
        \<and> \<not> contains_text ''WHERE''
              (Job_sql (whereClause (fst (Job_clauseStatements queries))))
        \<and> sent (Job_findAll db queries) = [(Job_sql [], [])]"
      using Job_sql_no_where
      by (simp add: none whereClause_def Job_findAll_eq sent_db_query)
  qed
  from job company company_none job_none show ?thesis by (intro conjI)
qed

text \<open>The empty request, and requests without a key that a rule matches.\<close>

theorem C8_builder_never_fails_witness:
  "sent (Job_findAll empty_db []) = [(Job_sql [], [])]
   \<and> sent (Company_findAll digits_to_number empty_db []) = [(Company_sql [], [])]
   \<and> outcome (Company_findAll digits_to_number empty_db []) = Inr []
   \<and> sent (Job_findAll empty_db [(''page'', JStr ''2''), (''hasEquity'', JBool False)])
       = [(Job_sql [], [])]
   \<and> sent (Company_findAll digits_to_number empty_db [(''page'', JStr ''2'')])
       = [(Company_sql [], [])]
   \<and> \<not> contains_text ''WHERE'' (Company_sql (whereClause (fst (Company_whereConditions []))))
   \<and> \<not> contains_text ''WHERE'' (Job_sql (whereClause (fst (Job_clauseStatements []))))"
proof -
  let ?q = "[(''page'', JStr ''2''), (''hasEquity'', JBool False)]"
  let ?q' = "[(''page'', JStr ''2'')]"
  have c: "\<not> has_key ''name'' [] \<and> \<not> has_key ''minEmployees'' []
        \<and> \<not> has_key ''maxEmployees'' []"
    "\<not> has_key ''name'' ?q' \<and> \<not> has_key ''minEmployees'' ?q'
        \<and> \<not> has_key ''maxEmployees'' ?q'"
    by (simp_all add: has_key_def)
  have j: "\<not> has_key ''title'' [] \<and> \<not> has_key ''minSalary'' []
        \<and> \<not> (has_key ''hasEquity'' [] \<and> get_prop [] ''hasEquity'' = JBool True)"
    "\<not> has_key ''title'' ?q \<and> \<not> has_key ''minSalary'' ?q
        \<and> \<not> (has_key ''hasEquity'' ?q \<and> get_prop ?q ''hasEquity'' = JBool True)"
    by (simp_all add: has_key_def get_prop_def)
  note empty = C8_builder_never_fails [of empty_db "[]" digits_to_number]
  note other = C8_builder_never_fails [of empty_db ?q digits_to_number]
  note other' = C8_builder_never_fails [of empty_db ?q' digits_to_number]
  from empty j(1) have 1: "sent (Job_findAll empty_db []) = [(Job_sql [], [])]" by blast
  from empty c(1) have 2: "sent (Company_findAll digits_to_number empty_db []) = [(Company_sql [], [])]"
    by blast
  have 3: "outcome (Company_findAll digits_to_number empty_db []) = Inr []"
    by (simp add: Company_findAll_def Company_whereConditions_def get_prop_def has_key_def
        db_query_def empty_db_def)
  from other j(2) have 4: "sent (Job_findAll empty_db ?q) = [(Job_sql [], [])]" by blast
  from other' c(2) have 5: "sent (Company_findAll digits_to_number empty_db ?q') = [(Company_sql [], [])]"
    by blast
  from empty c(1) have 6: "\<not> contains_text ''WHERE'' (Company_sql (whereClause (fst (Company_whereConditions []))))"
    by blast
  from empty j(1) have 7: "\<not> contains_text ''WHERE'' (Job_sql (whereClause (fst (Job_clauseStatements []))))"
    by blast
  from 1 2 3 4 5 6 7 show ?thesis by (intro conjI)
qed

text \<open>
  C9 (amended). \<^verbatim>\<open>Company.findAll\<close> starts with the range check: when
  \<^verbatim>\<open>Number(minEmployees) > Number(maxEmployees)\<close>, in particular when both bounds are
  numbers and the minimum exceeds the maximum, it raises a \<^verbatim>\<open>BadRequestError\<close> and
  sends no query. The check converts both bounds with \<^verbatim>\<open>Number\<close> itself, so when a
  bound is absent or converts to NaN the comparison is false and the query is built and
  sent. In the route the check comes after the conversion of the bounds and after the
  validation, not before: a request that the validation refuses is rejected with the
  validation's errors and does not reach \<^verbatim>\<open>Company.findAll\<close>, and one that it accepts
  is handed to \<^verbatim>\<open>Company.findAll\<close> with the bounds converted. Either way a request
  whose minimum exceeds its maximum ends in a \<^verbatim>\<open>BadRequestError\<close> with no query sent.
\<close>

theorem C9_range_check:
  "(js_gt (Number str2num (get_prop queries ''minEmployees''))
          (Number str2num (get_prop queries ''maxEmployees'')) \<longrightarrow>
      Company_findAll str2num db queries
        = \<lparr>outcome = Inl (BadRequestError NoMessage), sent = []\<rparr>)
   \<and> (get_prop queries ''minEmployees'' = JNum (Fin a)
        \<and> get_prop queries ''maxEmployees'' = JNum (Fin b) \<and> b < a \<longrightarrow>
      Company_findAll str2num db queries
        = \<lparr>outcome = Inl (BadRequestError NoMessage), sent = []\<rparr>)
   \<and> (Number str2num (get_prop queries ''minEmployees'') = NaN
        \<or> Number str2num (get_prop queries ''maxEmployees'') = NaN \<longrightarrow>
      sent (Company_findAll str2num db queries)
        = [(Company_sql (whereClause (fst (Company_whereConditions queries))),
            snd (Company_whereConditions queries))])
   \<and> (validate (companies_get_coerce str2num req_query) \<noteq> [] \<longrightarrow>
      companies_get str2num validate db req_query
        = \<lparr>outcome = Inl (BadRequestError (Msgs (validate (companies_get_coerce str2num req_query)))),
           sent = []\<rparr>)
   \<and> (validate (companies_get_coerce str2num req_query) = [] \<longrightarrow>
      companies_get str2num validate db req_query
        = Company_findAll str2num db (companies_get_coerce str2num req_query))
   \<and> (js_gt (Number str2num (get_prop req_query ''minEmployees''))
             (Number str2num (get_prop req_query ''maxEmployees'')) \<longrightarrow>
      (\<exists>m. companies_get str2num validate db req_query
             = \<lparr>outcome = Inl (BadRequestError m), sent = []\<rparr>))"
proof -
  have reject: "js_gt (Number str2num (get_prop queries ''minEmployees''))
          (Number str2num (get_prop queries ''maxEmployees'')) \<longrightarrow>
      Company_findAll str2num db queries
        = \<lparr>outcome = Inl (BadRequestError NoMessage), sent = []\<rparr>"
    by (simp add: Company_findAll_reject)
  have numbers: "get_prop queries ''minEmployees'' = JNum (Fin a)
        \<and> get_prop queries ''maxEmployees'' = JNum (Fin b) \<and> b < a \<longrightarrow>
      Company_findAll str2num db queries
        = \<lparr>outcome = Inl (BadRequestError NoMessage), sent = []\<rparr>"
    by (simp add: Company_findAll_reject)
  have nan: "Number str2num (get_prop queries ''minEmployees'') = NaN
        \<or> Number str2num (get_prop queries ''maxEmployees'') = NaN \<longrightarrow>
      sent (Company_findAll str2num db queries)
        = [(Company_sql (whereClause (fst (Company_whereConditions queries))),
            snd (Company_whereConditions queries))]"
  proof
    assume "Number str2num (get_prop queries ''minEmployees'') = NaN
        \<or> Number str2num (get_prop queries ''maxEmployees'') = NaN"
    then have "\<not> js_gt (Number str2num (get_prop queries ''minEmployees''))
          (Number str2num (get_prop queries ''maxEmployees''))"
      by (auto simp: js_gt_NaN_right)
    then show "sent (Company_findAll str2num db queries)
        = [(Company_sql (whereClause (fst (Company_whereConditions queries))),
            snd (Company_whereConditions queries))]"
      by (simp add: Company_findAll_pass sent_db_query)
  qed
  have invalid: "validate (companies_get_coerce str2num req_query) \<noteq> [] \<longrightarrow>
      companies_get str2num validate db req_query
        = \<lparr>outcome = Inl (BadRequestError (Msgs (validate (companies_get_coerce str2num req_query)))),
           sent = []\<rparr>"
    by (simp add: companies_get_def)
  have valid: "validate (companies_get_coerce str2num req_query) = [] \<longrightarrow>
      companies_get str2num validate db req_query
        = Company_findAll str2num db (companies_get_coerce str2num req_query)"
    by (simp add: companies_get_def)
  have route: "js_gt (Number str2num (get_prop req_query ''minEmployees''))
             (Number str2num (get_prop req_query ''maxEmployees'')) \<longrightarrow>
      (\<exists>m. companies_get str2num validate db req_query
             = \<lparr>outcome = Inl (BadRequestError m), sent = []\<rparr>)"
  proof
    assume gt: "js_gt (Number str2num (get_prop req_query ''minEmployees''))
             (Number str2num (get_prop req_query ''maxEmployees''))"
    show "\<exists>m. companies_get str2num validate db req_query
             = \<lparr>outcome = Inl (BadRequestError m), sent = []\<rparr>"
    proof (cases "validate (companies_get_coerce str2num req_query) = []")
      case True
      with valid have "companies_get str2num validate db req_query
        = Company_findAll str2num db (companies_get_coerce str2num req_query)"
        by blast
      also have "\<dots> = \<lparr>outcome = Inl (BadRequestError NoMessage), sent = []\<rparr>"
        using gt by (intro Company_findAll_reject) (simp add: coerce_Number)
      finally show ?thesis by blast
    next
      case False
      with invalid show ?thesis by blast
    qed
  qed
  from reject numbers nan invalid valid route show ?thesis by (intro conjI)
qed

text \<open>
  The claim as written places the range check before the validation. For the request
  \<^verbatim>\<open>?minEmployees=10&maxEmployees=5\<close> and a validator that refuses it, the route answers
  with the validation's error, not with the error of the range check.
\<close>

theorem C9_range_check_counterexample:
  "js_gt (Number digits_to_number (JStr ''10'')) (Number digits_to_number (JStr ''5''))
   \<and> companies_get digits_to_number reject_all empty_db
        [(''minEmployees'', JStr ''10''), (''maxEmployees'', JStr ''5'')]
      = \<lparr>outcome = Inl (BadRequestError (Msgs [''instance is not allowed''])), sent = []\<rparr>
   \<and> companies_get digits_to_number reject_all empty_db
        [(''minEmployees'', JStr ''10''), (''maxEmployees'', JStr ''5'')]
      \<noteq> Company_findAll digits_to_number empty_db
          [(''minEmployees'', JStr ''10''), (''maxEmployees'', JStr ''5'')]"
  by (simp add: companies_get_def reject_all_def Company_findAll_def get_prop_def
      digits_to_number_def is_digit_def read_nat_def digit_val_def)

text \<open>
  A minimum above the maximum; a bound that is not a number; an absent bound; the route
  with a validator that refuses and with one that accepts.
\<close>

theorem C9_range_check_witness:
  "Company_findAll digits_to_number empty_db
       [(''minEmployees'', JNum (Fin 10)), (''maxEmployees'', JNum (Fin 5))]
     = \<lparr>outcome = Inl (BadRequestError NoMessage), sent = []\<rparr>
   \<and> sent (Company_findAll digits_to_number empty_db
       [(''minEmployees'', JStr ''many''), (''maxEmployees'', JNum (Fin 5))])
     = [(Company_sql ''WHERE num_employees >= $1 AND num_employees <= $2'',
         [JStr ''many'', JNum (Fin 5)])]
   \<and> sent (Company_findAll digits_to_number empty_db [(''minEmployees'', JNum (Fin 10))])
     = [(Company_sql ''WHERE num_employees >= $1'', [JNum (Fin 10)])]
   \<and> companies_get digits_to_number reject_all empty_db
        [(''minEmployees'', JStr ''10''), (''maxEmployees'', JStr ''5'')]
      = \<lparr>outcome = Inl (BadRequestError (Msgs [''instance is not allowed''])), sent = []\<rparr>
   \<and> companies_get digits_to_number accept_all empty_db
        [(''minEmployees'', JStr ''10''), (''maxEmployees'', JStr ''5'')]
      = \<lparr>outcome = Inl (BadRequestError NoMessage), sent = []\<rparr>"
proof -
  let ?q1 = "[(''minEmployees'', JNum (Fin 10)), (''maxEmployees'', JNum (Fin 5))]"
  let ?q2 = "[(''minEmployees'', JStr ''many''), (''maxEmployees'', JNum (Fin 5))]"
  let ?q3 = "[(''minEmployees'', JNum (Fin 10))]"
  let ?req = "[(''minEmployees'', JStr ''10''), (''maxEmployees'', JStr ''5'')]"
  have coerced: "companies_get_coerce digits_to_number ?req = ?q1"
    by (simp add: companies_get_coerce_def has_key_def get_prop_def digits_to_number_def
        is_digit_def read_nat_def digit_val_def)
  have h1: "get_prop ?q1 ''minEmployees'' = JNum (Fin 10)
        \<and> get_prop ?q1 ''maxEmployees'' = JNum (Fin 5) \<and> (5::real) < 10"
    by (simp add: get_prop_def)
  from C9_range_check [of digits_to_number ?q1 empty_db 10 5] h1
  have 1: "Company_findAll digits_to_number empty_db ?q1
     = \<lparr>outcome = Inl (BadRequestError NoMessage), sent = []\<rparr>"
    by blast
  have h2: "Number digits_to_number (get_prop ?q2 ''minEmployees'') = NaN
        \<or> Number digits_to_number (get_prop ?q2 ''maxEmployees'') = NaN"
    by (simp add: get_prop_def digits_to_number_def is_digit_def)
  from C9_range_check [of digits_to_number ?q2 empty_db] h2
  have "sent (Company_findAll digits_to_number empty_db ?q2)
        = [(Company_sql (whereClause (fst (Company_whereConditions ?q2))),
            snd (Company_whereConditions ?q2))]"
    by blast
  then have 2: "sent (Company_findAll digits_to_number empty_db ?q2)
     = [(Company_sql ''WHERE num_employees >= $1 AND num_employees <= $2'',
         [JStr ''many'', JNum (Fin 5)])]"
    by (simp add: Company_whereConditions_def has_key_def get_prop_def whereClause_def dec_small)
  have h3: "Number digits_to_number (get_prop ?q3 ''minEmployees'') = NaN
        \<or> Number digits_to_number (get_prop ?q3 ''maxEmployees'') = NaN"
    by (simp add: get_prop_def)
  from C9_range_check [of digits_to_number ?q3 empty_db] h3
  have "sent (Company_findAll digits_to_number empty_db ?q3)
        = [(Company_sql (whereClause (fst (Company_whereConditions ?q3))),
            snd (Company_whereConditions ?q3))]"
    by blast
  then have 3: "sent (Company_findAll digits_to_number empty_db ?q3)
     = [(Company_sql ''WHERE num_employees >= $1'', [JNum (Fin 10)])]"
    by (simp add: Company_whereConditions_def has_key_def get_prop_def whereClause_def dec_small)
  have h4: "reject_all (companies_get_coerce digits_to_number ?req) \<noteq> []"
    by (simp add: reject_all_def)
  from C9_range_check [where str2num = digits_to_number and validate = reject_all
      and req_query = ?req and db = empty_db] h4
  have 4: "companies_get digits_to_number reject_all empty_db ?req
      = \<lparr>outcome = Inl (BadRequestError (Msgs [''instance is not allowed''])), sent = []\<rparr>"
    by (simp add: reject_all_def)
  have h5: "accept_all (companies_get_coerce digits_to_number ?req) = []"
    by (simp add: accept_all_def)
  from C9_range_check [where str2num = digits_to_number and validate = accept_all
      and req_query = ?req and db = empty_db] h5
  have "companies_get digits_to_number accept_all empty_db ?req
      = Company_findAll digits_to_number empty_db (companies_get_coerce digits_to_number ?req)"
    by blast
  with 1 have 5: "companies_get digits_to_number accept_all empty_db ?req
      = \<lparr>outcome = Inl (BadRequestError NoMessage), sent = []\<rparr>"
    by (simp only: coerced)
  from 1 2 3 4 5 show ?thesis by (intro conjI)
qed

text \<open>
  C10. The text of the statement depends on the request only through which of the
  recognised keys are present and, for hasEquity, whether its value is true: two
  requests that agree on this give the same predicates and the same statement, for
  \<^verbatim>\<open>Company.findAll\<close> and for \<^verbatim>\<open>Job.findAll\<close>, whatever their values are; and the
  queries sent carry the same text. The values go to the array of parameters only.
\<close>

theorem C10_text_independent_of_values:
  "(has_key ''name'' queries = has_key ''name'' queries'
      \<and> has_key ''minEmployees'' queries = has_key ''minEmployees'' queries'
      \<and> has_key ''maxEmployees'' queries = has_key ''maxEmployees'' queries' \<longrightarrow>
      fst (Company_whereConditions queries) = fst (Company_whereConditions queries')
      \<and> Company_sql (whereClause (fst (Company_whereConditions queries)))
          = Company_sql (whereClause (fst (Company_whereConditions queries')))
      \<and> (\<forall>x \<in> set (sent (Company_findAll str2num db queries)).
           \<forall>y \<in> set (sent (Company_findAll str2num' db' queries')). fst x = fst y))
   \<and> (has_key ''title'' queries = has_key ''title'' queries'
      \<and> has_key ''minSalary'' queries = has_key ''minSalary'' queries'
      \<and> (has_key ''hasEquity'' queries \<and> get_prop queries ''hasEquity'' = JBool True)
          = (has_key ''hasEquity'' queries' \<and> get_prop queries' ''hasEquity'' = JBool True) \<longrightarrow>
      fst (Job_clauseStatements queries) = fst (Job_clauseStatements queries')
      \<and> Job_sql (whereClause (fst (Job_clauseStatements queries)))
          = Job_sql (whereClause (fst (Job_clauseStatements queries')))
      \<and> map fst (sent (Job_findAll db queries)) = map fst (sent (Job_findAll db' queries')))"
proof -
  have company: "has_key ''name'' queries = has_key ''name'' queries'
      \<and> has_key ''minEmployees'' queries = has_key ''minEmployees'' queries'
      \<and> has_key ''maxEmployees'' queries = has_key ''maxEmployees'' queries' \<longrightarrow>
      fst (Company_whereConditions queries) = fst (Company_whereConditions queries')
      \<and> Company_sql (whereClause (fst (Company_whereConditions queries)))
          = Company_sql (whereClause (fst (Company_whereConditions queries')))
      \<and> (\<forall>x \<in> set (sent (Company_findAll str2num db queries)).
           \<forall>y \<in> set (sent (Company_findAll str2num' db' queries')). fst x = fst y)"
  proof (intro impI, elim conjE)
    assume h: "has_key ''name'' queries = has_key ''name'' queries'"
      "has_key ''minEmployees'' queries = has_key ''minEmployees'' queries'"
      "has_key ''maxEmployees'' queries = has_key ''maxEmployees'' queries'"
    have preds: "fst (Company_whereConditions queries) = fst (Company_whereConditions queries')"
      by (simp add: Company_whereConditions_def h)
    have "\<forall>x \<in> set (sent (Company_findAll str2num db queries)).
           \<forall>y \<in> set (sent (Company_findAll str2num' db' queries')). fst x = fst y"
      using sent_Company_findAll [of str2num db queries]
        sent_Company_findAll [of str2num' db' queries']
      by (auto simp: preds)
    with preds show "fst (Company_whereConditions queries) = fst (Company_whereConditions queries')
      \<and> Company_sql (whereClause (fst (Company_whereConditions queries)))
          = Company_sql (whereClause (fst (Company_whereConditions queries')))
      \<and> (\<forall>x \<in> set (sent (Company_findAll str2num db queries)).
           \<forall>y \<in> set (sent (Company_findAll str2num' db' queries')). fst x = fst y)"
      by simp
  qed
  have job: "has_key ''title'' queries = has_key ''title'' queries'
      \<and> has_key ''minSalary'' queries = has_key ''minSalary'' queries'
      \<and> (has_key ''hasEquity'' queries \<and> get_prop queries ''hasEquity'' = JBool True)
          = (has_key ''hasEquity'' queries' \<and> get_prop queries' ''hasEquity'' = JBool True) \<longrightarrow>
      fst (Job_clauseStatements queries) = fst (Job_clauseStatements queries')
      \<and> Job_sql (whereClause (fst (Job_clauseStatements queries)))
          = Job_sql (whereClause (fst (Job_clauseStatements queries')))
      \<and> map fst (sent (Job_findAll db queries)) = map fst (sent (Job_findAll db' queries'))"
  proof (intro impI, elim conjE)
    assume h: "has_key ''title'' queries = has_key ''title'' queries'"
      "has_key ''minSalary'' queries = has_key ''minSalary'' queries'"
      "(has_key ''hasEquity'' queries \<and> get_prop queries ''hasEquity'' = JBool True)
          = (has_key ''hasEquity'' queries' \<and> get_prop queries' ''hasEquity'' = JBool True)"
    have preds: "fst (Job_clauseStatements queries) = fst (Job_clauseStatements queries')"
      unfolding Job_clauseStatements_def by (simp only: h) simp
    then show "fst (Job_clauseStatements queries) = fst (Job_clauseStatements queries')
      \<and> Job_sql (whereClause (fst (Job_clauseStatements queries)))
          = Job_sql (whereClause (fst (Job_clauseStatements queries')))
      \<and> map fst (sent (Job_findAll db queries)) = map fst (sent (Job_findAll db' queries'))"
      by (simp add: Job_findAll_eq sent_db_query)
  qed
  from company job show ?thesis by (intro conjI)
qed

text \<open>Requests with the same keys and different values, some of them hostile.\<close>

theorem C10_text_independent_of_values_witness:
  "Company_sql (whereClause (fst (Company_whereConditions
       [(''name'', JStr ''net''), (''minEmployees'', JNum (Fin 10))])))
     = Company_sql (whereClause (fst (Company_whereConditions
       [(''minEmployees'', JNum (Fin 700)), (''name'', JStr (''x'' @ [CHR 0x27] @ ''; DROP TABLE companies; --''))])))
   \<and> Job_sql (whereClause (fst (Job_clauseStatements
       [(''title'', JStr ''dev''), (''hasEquity'', JBool True)])))
     = Job_sql (whereClause (fst (Job_clauseStatements
       [(''hasEquity'', JBool True), (''title'', JStr ''$1 OR 1=1'')])))
   \<and> map fst (sent (Job_findAll empty_db [(''title'', JStr ''dev''), (''hasEquity'', JBool True)]))
     = map fst (sent (Job_findAll empty_db [(''hasEquity'', JBool True), (''title'', JStr ''$1 OR 1=1'')]))"
proof -
  let ?c = "[(''name'', JStr ''net''), (''minEmployees'', JNum (Fin 10))]"
  let ?c' = "[(''minEmployees'', JNum (Fin 700)), (''name'', JStr (''x'' @ [CHR 0x27] @ ''; DROP TABLE companies; --''))]"
  let ?j = "[(''title'', JStr ''dev''), (''hasEquity'', JBool True)]"
  let ?j' = "[(''hasEquity'', JBool True), (''title'', JStr ''$1 OR 1=1'')]"
  have hc: "has_key ''name'' ?c = has_key ''name'' ?c'
      \<and> has_key ''minEmployees'' ?c = has_key ''minEmployees'' ?c'
      \<and> has_key ''maxEmployees'' ?c = has_key ''maxEmployees'' ?c'"
    by (simp add: has_key_def)
  have hj: "has_key ''title'' ?j = has_key ''title'' ?j'
      \<and> has_key ''minSalary'' ?j = has_key ''minSalary'' ?j'
      \<and> (has_key ''hasEquity'' ?j \<and> get_prop ?j ''hasEquity'' = JBool True)
          = (has_key ''hasEquity'' ?j' \<and> get_prop ?j' ''hasEquity'' = JBool True)"
    by (simp add: has_key_def get_prop_def)
  from C10_text_independent_of_values [where queries = ?c and queries' = ?c'] hc
  have 1: "Company_sql (whereClause (fst (Company_whereConditions ?c)))
     = Company_sql (whereClause (fst (Company_whereConditions ?c')))"
    by blast
  from C10_text_independent_of_values [where queries = ?j and queries' = ?j'
      and db = empty_db and db' = empty_db] hj
  have 2: "Job_sql (whereClause (fst (Job_clauseStatements ?j)))
     = Job_sql (whereClause (fst (Job_clauseStatements ?j')))"
    and 3: "map fst (sent (Job_findAll empty_db ?j)) = map fst (sent (Job_findAll empty_db ?j'))"
    by blast+
  from 1 2 3 show ?thesis by (intro conjI)
qed

end
